theory Spec2Isabelle
  imports
    Main
    "HOL-Library.AList"
    "HOL-Library.Char_ord"
    "HOL-Library.List_Lexorder"
    "HOL-Library.Product_Lexorder"
    "HOL-Library.Sublist"
begin

text \<open>
  The organizations service: four Mongoose models (Organization, Brand, Business,
  Franchise) with their instance methods, and the Express application that serves them.
  The store and its driver are modelled by what they do to lists of documents; the
  schemas, the methods and the route handlers follow the source.
\<close>

section \<open>Values and documents\<close>

text \<open>
  The service stores and returns JavaScript objects. A value is one of the kinds the four
  schemas use: \<open>null\<close>, Boolean, Number, String, Date, ObjectId, array and object.
  \<open>undefined\<close> (a property that is not there) is \<open>None\<close> of \<open>json option\<close>.
  A Number is an integer here (limits, counts, capacities and coordinates of the service;
  fractions are outside the model). A Date is its millisecond count, an ObjectId its
  hexadecimal string. An object is the list of its properties in order.
\<close>

datatype json =
    JNull
  | JBool bool
  | JNum int
  | JStr string
  | JDate nat
  | JId string
  | JArr "json list"
  | JObj "(string \<times> json) list"

type_synonym path = "string list"

text \<open>\<open>obj[key]\<close>: the property, \<open>undefined\<close> on a missing key or on a value that is no object.\<close>

fun getProp :: "json \<Rightarrow> string \<Rightarrow> json option" where
  "getProp (JObj kvs) k = map_of kvs k"
| "getProp _ k = None"

text \<open>\<open>obj.a.b.c\<close> read the way Mongoose's \<open>doc.get('a.b.c')\<close> reads it.\<close>

fun getPath :: "json \<Rightarrow> path \<Rightarrow> json option" where
  "getPath v [] = Some v"
| "getPath v (k # ks) = (case getProp v k of None \<Rightarrow> None | Some c \<Rightarrow> getPath c ks)"

text \<open>\<open>obj[key] = v\<close>: an existing property keeps its place, a new one goes last.\<close>

fun setProp :: "json \<Rightarrow> string \<Rightarrow> json \<Rightarrow> json" where
  "setProp (JObj kvs) k v = JObj (AList.update k v kvs)"
| "setProp _ k v = JObj [(k, v)]"

text \<open>\<open>doc.set('a.b.c', v)\<close>: the objects on the way are made when they are missing.\<close>

fun setPath :: "json \<Rightarrow> path \<Rightarrow> json \<Rightarrow> json" where
  "setPath d [] v = v"
| "setPath d (k # ks) v =
     setProp d k (setPath (case getProp d k of None \<Rightarrow> JObj [] | Some c \<Rightarrow> c) ks v)"

text \<open>The keys of an object (\<open>Object.keys\<close>).\<close>

fun keys :: "json \<Rightarrow> string list" where
  "keys (JObj kvs) = map fst kvs"
| "keys _ = []"

subsection \<open>JavaScript operators the methods use\<close>

text \<open>
  \<open>ToNumber\<close> on the values a count or a limit can hold: \<open>undefined\<close> is NaN
  (\<open>None\<close>), \<open>null\<close> is 0.
\<close>

fun toNumber :: "json option \<Rightarrow> int option" where
  "toNumber None = None"
| "toNumber (Some JNull) = Some 0"
| "toNumber (Some (JBool b)) = Some (if b then 1 else 0)"
| "toNumber (Some (JNum n)) = Some n"
| "toNumber (Some (JDate t)) = Some (int t)"
| "toNumber (Some _) = None"

text \<open>\<open>a < b\<close> on such values: false as soon as one side is NaN.\<close>

definition js_lt :: "json option \<Rightarrow> json option \<Rightarrow> bool" where
  "js_lt a b =
     (case toNumber a of
        None \<Rightarrow> False
      | Some x \<Rightarrow> (case toNumber b of None \<Rightarrow> False | Some y \<Rightarrow> x < y))"

text \<open>Truthiness of a value in a condition.\<close>

fun truthy :: "json option \<Rightarrow> bool" where
  "truthy None = False"
| "truthy (Some JNull) = False"
| "truthy (Some (JBool b)) = b"
| "truthy (Some (JNum n)) = (n \<noteq> 0)"
| "truthy (Some (JStr s)) = (s \<noteq> [])"
| "truthy (Some _) = True"

section \<open>The store\<close>

text \<open>
  One collection per model, each a list of documents in insertion order. The service reads
  three collections whose models other services declare (\<open>ref: 'Staff'\<close>,
  \<open>ref: 'Form'\<close>, \<open>ref: 'User'\<close>); they are part of the store. The store is
  reachable: no query fails on its own.

  An identifier is a well-formed ObjectId, written as its string. (On any other string
  \<open>findById\<close> raises a CastError, which the handlers answer with status 500.)
\<close>

record store =
  organizations :: "json list"
  brands :: "json list"
  businesses :: "json list"
  franchises :: "json list"
  staff :: "json list"
  forms :: "json list"
  users :: "json list"


section \<open>Schemas\<close>

text \<open>
  A Mongoose schema, the way Mongoose itself keeps it: the list of its leaf paths, each
  with the options the source declares for it. Only the options the four schemas use are
  there.
\<close>

datatype stype = SString | SNumber | SBoolean | SDate | SObjectId | SStrings | SNumbers

datatype dflt = DConst json | DNow | DNewId

record opts =
  stype :: stype
  required :: bool
  dflt :: "dflt option"
  enum :: "string list option"
  maxlength :: "nat option"
  trim :: bool
  lowercase :: bool
  unique :: bool

type_synonym schema = "(path \<times> opts) list"

definition ofType :: "stype \<Rightarrow> opts" where
  "ofType t = \<lparr> stype = t, required = False, dflt = None, enum = None, maxlength = None,
                trim = False, lowercase = False, unique = False \<rparr>"

text \<open>A path with \<open>default: v\<close>, and a String path with \<open>enum\<close> and \<open>default\<close>.\<close>

definition withDefault :: "stype \<Rightarrow> json \<Rightarrow> opts" where
  "withDefault t v = (ofType t)\<lparr> dflt := Some (DConst v) \<rparr>"

definition enumOf :: "string list \<Rightarrow> string \<Rightarrow> opts" where
  "enumOf vs v = (ofType SString)\<lparr> enum := Some vs, dflt := Some (DConst (JStr v)) \<rparr>"

text \<open>
  Mongoose adds \<open>_id\<close> (a fresh ObjectId by default, under the unique index every
  collection has) to each schema.
\<close>

definition idPath :: "path \<times> opts" where
  "idPath = ([''_id''], (ofType SObjectId)\<lparr> dflt := Some DNewId, unique := True \<rparr>)"

text \<open>\<open>isActive\<close>, \<open>createdAt\<close> and \<open>updatedAt\<close>, declared alike by the four schemas.\<close>

definition commonPaths :: schema where
  "commonPaths =
    [([''isActive''], withDefault SBoolean (JBool True)),
     ([''createdAt''], (ofType SDate)\<lparr> dflt := Some DNow \<rparr>),
     ([''updatedAt''], (ofType SDate)\<lparr> dflt := Some DNow \<rparr>)]"

definition addressPaths :: "path \<Rightarrow> schema" where
  "addressPaths pre =
     map (\<lambda>k. (pre @ [k], ofType SString))
       [''street'', ''city'', ''state'', ''country'', ''zipCode'']"

definition organizationSchema :: schema where
  "organizationSchema =
    [idPath,
     ([''name''], (ofType SString)\<lparr> required := True, trim := True, maxlength := Some 100 \<rparr>),
     ([''description''], (ofType SString)\<lparr> maxlength := Some 500 \<rparr>),
     ([''domain''], (ofType SString)\<lparr> unique := True, lowercase := True, trim := True \<rparr>),
     ([''logo''], withDefault SString JNull),
     ([''settings'', ''timezone''], withDefault SString (JStr ''UTC'')),
     ([''settings'', ''currency''], withDefault SString (JStr ''USD'')),
     ([''settings'', ''language''], withDefault SString (JStr ''en'')),
     ([''settings'', ''features'', ''multiBrand''], withDefault SBoolean (JBool False)),
     ([''settings'', ''features'', ''whiteLabel''], withDefault SBoolean (JBool False)),
     ([''settings'', ''features'', ''customDomain''], withDefault SBoolean (JBool False)),
     ([''contact'', ''email''], (ofType SString)\<lparr> required := True \<rparr>),
     ([''contact'', ''phone''], ofType SString)]
    @ addressPaths [''contact'', ''address''] @
    [([''subscription'', ''plan''],
        enumOf [''basic'', ''professional'', ''enterprise''] ''basic''),
     ([''subscription'', ''status''],
        enumOf [''active'', ''suspended'', ''cancelled'', ''trial''] ''trial''),
     ([''subscription'', ''trialEndsAt''], ofType SDate),
     ([''subscription'', ''billingCycle''], enumOf [''monthly'', ''yearly''] ''monthly''),
     ([''limits'', ''brands''], withDefault SNumber (JNum 1)),
     ([''limits'', ''businesses''], withDefault SNumber (JNum 5)),
     ([''limits'', ''users''], withDefault SNumber (JNum 10)),
     ([''limits'', ''storage''], withDefault SNumber (JNum 1024))]
    @ commonPaths"

definition brandSchema :: schema where
  "brandSchema =
    [idPath,
     ([''name''], (ofType SString)\<lparr> required := True, trim := True, maxlength := Some 100 \<rparr>),
     ([''description''], (ofType SString)\<lparr> maxlength := Some 500 \<rparr>),
     ([''organizationId''], (ofType SObjectId)\<lparr> required := True \<rparr>),
     ([''logo''], withDefault SString JNull),
     ([''brandGuidelines'', ''primaryColor''], ofType SString),
     ([''brandGuidelines'', ''secondaryColor''], ofType SString),
     ([''brandGuidelines'', ''fontFamily''], ofType SString),
     ([''brandGuidelines'', ''logoVariations''], ofType SStrings),
     ([''settings'', ''theme''], withDefault SString (JStr ''default'')),
     ([''settings'', ''customDomain''], ofType SString),
     ([''settings'', ''features'', ''customForms''], withDefault SBoolean (JBool False)),
     ([''settings'', ''features'', ''customReports''], withDefault SBoolean (JBool False)),
     ([''settings'', ''features'', ''whiteLabel''], withDefault SBoolean (JBool False)),
     ([''contact'', ''email''], ofType SString),
     ([''contact'', ''phone''], ofType SString)]
    @ addressPaths [''contact'', ''address''] @
    [([''limits'', ''businesses''], withDefault SNumber (JNum 10)),
     ([''limits'', ''users''], withDefault SNumber (JNum 50)),
     ([''limits'', ''forms''], withDefault SNumber (JNum 100))]
    @ commonPaths"

definition businessSchema :: schema where
  "businessSchema =
    [idPath,
     ([''name''], (ofType SString)\<lparr> required := True, trim := True, maxlength := Some 100 \<rparr>),
     ([''description''], (ofType SString)\<lparr> maxlength := Some 500 \<rparr>),
     ([''organizationId''], (ofType SObjectId)\<lparr> required := True \<rparr>),
     ([''brandId''], withDefault SObjectId JNull),
     ([''ownerId''], (ofType SObjectId)\<lparr> required := True \<rparr>),
     ([''industry''], (ofType SString)\<lparr> required := True, enum := Some
        [''restaurant'', ''hotel'', ''retail'', ''healthcare'', ''education'',
         ''fitness'', ''beauty'', ''automotive'', ''real_estate'', ''other''] \<rparr>),
     ([''businessType''],
        enumOf [''single_location'', ''multi_location'', ''franchise'', ''chain'']
          ''single_location''),
     ([''contact'', ''email''], (ofType SString)\<lparr> required := True \<rparr>),
     ([''contact'', ''phone''], ofType SString),
     ([''contact'', ''website''], ofType SString)]
    @ addressPaths [''contact'', ''address''] @
    [([''contact'', ''address'', ''coordinates'', ''type''], enumOf [''Point''] ''Point''),
     ([''contact'', ''address'', ''coordinates'', ''coordinates''],
        withDefault SNumbers (JArr [JNum 0, JNum 0])),
     ([''settings'', ''timezone''], withDefault SString (JStr ''UTC'')),
     ([''settings'', ''currency''], withDefault SString (JStr ''USD'')),
     ([''settings'', ''language''], withDefault SString (JStr ''en'')),
     ([''settings'', ''notifications'', ''email''], withDefault SBoolean (JBool True)),
     ([''settings'', ''notifications'', ''sms''], withDefault SBoolean (JBool False)),
     ([''settings'', ''notifications'', ''push''], withDefault SBoolean (JBool False)),
     ([''settings'', ''features'', ''customForms''], withDefault SBoolean (JBool False)),
     ([''settings'', ''features'', ''customReports''], withDefault SBoolean (JBool False)),
     ([''settings'', ''features'', ''aiInsights''], withDefault SBoolean (JBool False)),
     ([''settings'', ''features'', ''integrations''], withDefault SBoolean (JBool False)),
     ([''subscription'', ''plan''],
        enumOf [''basic'', ''professional'', ''enterprise''] ''basic''),
     ([''subscription'', ''status''],
        enumOf [''active'', ''suspended'', ''cancelled'', ''trial''] ''trial''),
     ([''subscription'', ''trialEndsAt''], ofType SDate),
     ([''subscription'', ''features''], ofType SStrings),
     ([''subscription'', ''limits'', ''franchises''], withDefault SNumber (JNum 1)),
     ([''subscription'', ''limits'', ''forms''], withDefault SNumber (JNum 5)),
     ([''subscription'', ''limits'', ''submissions''], withDefault SNumber (JNum 100)),
     ([''subscription'', ''limits'', ''staff''], withDefault SNumber (JNum 5)),
     ([''subscription'', ''limits'', ''storage''], withDefault SNumber (JNum 1024))]
    @ commonPaths"

definition weekdays :: "string list" where
  "weekdays = [''monday'', ''tuesday'', ''wednesday'', ''thursday'', ''friday'',
               ''saturday'', ''sunday'']"

text \<open>One day of \<open>settings.operatingHours\<close>: \<open>open\<close>, \<open>close\<close> and \<open>closed\<close>.\<close>

definition dayPaths :: "string \<Rightarrow> schema" where
  "dayPaths day =
    [([''settings'', ''operatingHours'', day, ''open''], ofType SString),
     ([''settings'', ''operatingHours'', day, ''close''], ofType SString),
     ([''settings'', ''operatingHours'', day, ''closed''], withDefault SBoolean (JBool False))]"

definition franchiseSchema :: schema where
  "franchiseSchema =
    [idPath,
     ([''name''], (ofType SString)\<lparr> required := True, trim := True, maxlength := Some 100 \<rparr>),
     ([''businessId''], (ofType SObjectId)\<lparr> required := True \<rparr>),
     ([''managerId''], withDefault SObjectId JNull)]
    @ map (\<lambda>k. ([''address'', k], (ofType SString)\<lparr> required := True \<rparr>))
        [''street'', ''city'', ''state'', ''country'', ''zipCode''] @
    [([''address'', ''coordinates'', ''type''], enumOf [''Point''] ''Point''),
     ([''address'', ''coordinates'', ''coordinates''],
        (ofType SNumbers)\<lparr> required := True \<rparr>),
     ([''contact'', ''phone''], ofType SString),
     ([''contact'', ''email''], ofType SString),
     ([''contact'', ''website''], ofType SString),
     ([''settings'', ''timezone''], withDefault SString (JStr ''UTC''))]
    @ concat (map dayPaths weekdays) @
    [([''settings'', ''features'', ''wifi''], withDefault SBoolean (JBool False)),
     ([''settings'', ''features'', ''parking''], withDefault SBoolean (JBool False)),
     ([''settings'', ''features'', ''delivery''], withDefault SBoolean (JBool False)),
     ([''settings'', ''features'', ''takeout''], withDefault SBoolean (JBool False)),
     ([''settings'', ''features'', ''outdoorSeating''], withDefault SBoolean (JBool False)),
     ([''capacity'', ''maxCustomers''], withDefault SNumber (JNum 50)),
     ([''capacity'', ''seatingCapacity''], withDefault SNumber (JNum 30))]
    @ commonPaths"


section \<open>Documents of a model\<close>

text \<open>
  Strings are ASCII. A request body is a JSON object whose values already have the types
  of their paths: a value Mongoose could not cast raises inside the same \<open>try\<close> block
  as a failed validation and is not modelled apart. Mongoose's implicit empty-array
  default is left out (no operation of the service reads an array path), and so are the
  version key \<open>__v\<close> and the \<open>id\<close> virtual of a document.
\<close>

definition isSpace :: "char \<Rightarrow> bool" where
  "isSpace c = (c \<in> set [CHR '' '', CHR 0x09, CHR 0x0A, CHR 0x0B, CHR 0x0C, CHR 0x0D])"

definition js_trim :: "string \<Rightarrow> string" where
  "js_trim s = rev (dropWhile isSpace (rev (dropWhile isSpace s)))"

definition toLowerCase :: "string \<Rightarrow> string" where
  "toLowerCase s =
     map (\<lambda>c. if CHR ''A'' \<le> c \<and> c \<le> CHR ''Z'' then char_of (of_char c + (32 :: nat)) else c) s"

text \<open>The setters \<open>lowercase: true\<close> and \<open>trim: true\<close> add to a String path.\<close>

definition applySetters :: "opts \<Rightarrow> json \<Rightarrow> json" where
  "applySetters po v =
     (case v of
        JStr s \<Rightarrow> JStr ((if trim po then js_trim else id) ((if lowercase po then toLowerCase else id) s))
      | _ \<Rightarrow> v)"

fun evalDefault :: "dflt \<Rightarrow> nat \<Rightarrow> string \<Rightarrow> json" where
  "evalDefault (DConst v) now oid = v"
| "evalDefault DNow now oid = JDate now"
| "evalDefault DNewId now oid = JId oid"

text \<open>
  \<open>new Model(body)\<close>: under the default strict mode only the schema's paths are taken
  from the body, each through its setters; a path the body leaves out gets its default,
  when it has one. \<open>now\<close> is what \<open>Date.now\<close> returns at construction, \<open>oid\<close> the
  ObjectId generated for the document.
\<close>

fun assign :: "schema \<Rightarrow> json \<Rightarrow> nat \<Rightarrow> string \<Rightarrow> json \<Rightarrow> json" where
  "assign [] body now oid d = d"
| "assign ((p, po) # s) body now oid d =
     assign s body now oid
       (case getPath body p of
          Some v \<Rightarrow> setPath d p (applySetters po v)
        | None \<Rightarrow> (case dflt po of
                     None \<Rightarrow> d
                   | Some df \<Rightarrow> setPath d p (evalDefault df now oid)))"

definition construct :: "schema \<Rightarrow> json \<Rightarrow> nat \<Rightarrow> string \<Rightarrow> json" where
  "construct s body now oid = assign s body now oid (JObj [])"

subsection \<open>Validation\<close>

text \<open>
  The \<open>required\<close> validator rejects \<open>undefined\<close>, \<open>null\<close> and, on a String path,
  the empty string. \<open>enum\<close> and \<open>maxlength\<close> run on a value that is there.
\<close>

definition absent :: "opts \<Rightarrow> json option \<Rightarrow> bool" where
  "absent po v = (v = None \<or> v = Some JNull \<or> (stype po = SString \<and> v = Some (JStr [])))"

definition pathValid :: "opts \<Rightarrow> json option \<Rightarrow> bool" where
  "pathValid po v =
     ((if required po then \<not> absent po v else True) \<and>
      (case v of
         Some (JStr s) \<Rightarrow>
           (case enum po of None \<Rightarrow> True | Some vs \<Rightarrow> s \<in> set vs) \<and>
           (case maxlength po of None \<Rightarrow> True | Some n \<Rightarrow> length s \<le> n)
       | _ \<Rightarrow> True))"

definition validate :: "schema \<Rightarrow> json \<Rightarrow> bool" where
  "validate s d = list_all (\<lambda>(p, po). pathValid po (getPath d p)) s"

subsection \<open>Saving\<close>

datatype error = ValidationError | MongoServerError | TypeError

text \<open>
  The \<open>pre('save')\<close> hook, the same in the four models:
  \<^verbatim>\<open>this.updatedAt = new Date(); next();\<close>
  It runs after validation and after the hook of \<open>timestamps: true\<close>, which are
  registered before it, so its value is the one stored.
\<close>

definition preSave :: "json \<Rightarrow> nat \<Rightarrow> json" where
  "preSave this now = setProp this ''updatedAt'' (JDate now)"

text \<open>
  A unique index holds one document per key; a document without the path is indexed
  under \<open>null\<close>.
\<close>

definition indexKey :: "json \<Rightarrow> path \<Rightarrow> json" where
  "indexKey d p = (case getPath d p of None \<Rightarrow> JNull | Some v \<Rightarrow> v)"

definition duplicateKey :: "schema \<Rightarrow> json list \<Rightarrow> json \<Rightarrow> bool" where
  "duplicateKey s coll d =
     list_ex (\<lambda>(p, po). unique po \<and> list_ex (\<lambda>e. indexKey e p = indexKey d p) coll) s"

text \<open>\<open>doc.save()\<close> of a new document; \<open>now\<close> is the clock when the hook runs.\<close>

definition save :: "schema \<Rightarrow> json list \<Rightarrow> json \<Rightarrow> nat \<Rightarrow> error + (json list \<times> json)" where
  "save s coll d now =
     (if \<not> validate s d then Inl ValidationError
      else let d' = preSave d now
           in if duplicateKey s coll d' then Inl MongoServerError
              else Inr (coll @ [d'], d'))"

subsection \<open>Queries\<close>

datatype cond = Eq json | In "json list"

type_synonym filter = "(string \<times> cond) list"

text \<open>A value that is \<open>undefined\<close> goes to the store as \<open>null\<close>.\<close>

definition fromJS :: "json option \<Rightarrow> json" where
  "fromJS v = (case v of None \<Rightarrow> JNull | Some x \<Rightarrow> x)"

text \<open>A condition on \<open>null\<close> also matches a document without the field.\<close>

fun holds :: "cond \<Rightarrow> json option \<Rightarrow> bool" where
  "holds (Eq v) x = (fromJS x = v)"
| "holds (In vs) x = (fromJS x \<in> set vs)"

definition matches :: "filter \<Rightarrow> json \<Rightarrow> bool" where
  "matches flt d = list_all (\<lambda>(k, c). holds c (getProp d k)) flt"

text \<open>\<open>Model.find(filter)\<close>, \<open>Model.findById(id)\<close>.\<close>

definition findDocs :: "json list \<Rightarrow> filter \<Rightarrow> json list" where
  "findDocs coll flt = filter (matches flt) coll"

definition findById :: "json list \<Rightarrow> string \<Rightarrow> json option" where
  "findById coll i = List.find (\<lambda>d. getProp d ''_id'' = Some (JId i)) coll"

text \<open>
  The order of the store on values of different kinds (\<open>null\<close> and missing first, then
  numbers, strings, objects, arrays, ObjectIds, Booleans, dates); strings compare byte
  by byte. Objects and arrays, which no sort key of the service holds, compare equal
  among themselves.
\<close>

fun bsonKey :: "json option \<Rightarrow> nat \<times> int \<times> string" where
  "bsonKey None = (1, 0, [])"
| "bsonKey (Some JNull) = (1, 0, [])"
| "bsonKey (Some (JNum n)) = (2, n, [])"
| "bsonKey (Some (JStr s)) = (3, 0, s)"
| "bsonKey (Some (JObj kvs)) = (4, 0, [])"
| "bsonKey (Some (JArr vs)) = (5, 0, [])"
| "bsonKey (Some (JId i)) = (6, 0, i)"
| "bsonKey (Some (JBool b)) = (7, if b then 1 else 0, [])"
| "bsonKey (Some (JDate t)) = (8, int t, [])"

text \<open>
  \<open>.sort({key: dir})\<close>, \<open>dir\<close> being 1 or -1. Documents with equal keys stay in
  insertion order when ascending (the store promises no order among them).
\<close>

definition sortDocs :: "string \<Rightarrow> int \<Rightarrow> json list \<Rightarrow> json list" where
  "sortDocs k dir ds =
     (let asc = sort_key (\<lambda>d. bsonKey (getProp d k)) ds
      in if dir < 0 then rev asc else asc)"

text \<open>
  \<open>.limit(n).skip(m)\<close>: whatever the order of the calls on the query, the store sorts,
  then skips, then limits; a limit of 0 is no limit.
\<close>

definition skipLimit :: "nat \<Rightarrow> nat \<Rightarrow> json list \<Rightarrow> json list" where
  "skipLimit n m ds = (let r = drop m ds in if n = 0 then r else take n r)"

text \<open>
  \<open>.populate(virtual)\<close> of a \<open>count: true\<close> virtual: the number of documents of the
  referenced collection whose \<open>foreignField\<close> is this document's \<open>_id\<close>. The virtuals
  of the four schemas declare no \<open>match\<close>.
\<close>

definition countRefs :: "json list \<Rightarrow> string \<Rightarrow> json \<Rightarrow> nat" where
  "countRefs coll foreignField d =
     length (filter (\<lambda>c. getProp c foreignField = Some (fromJS (getProp d ''_id''))) coll)"

definition populateCount :: "string \<Rightarrow> json list \<Rightarrow> string \<Rightarrow> json \<Rightarrow> json" where
  "populateCount virtual coll foreignField d =
     setProp d virtual (JNum (int (countRefs coll foreignField d)))"

text \<open>
  \<open>.populate(field, select)\<close>: an ObjectId in \<open>field\<close> is replaced by the referenced
  document, cut down to \<open>_id\<close> and the selected fields, or by \<open>null\<close> when there is no
  such document.
\<close>

definition selectFields :: "string list \<Rightarrow> json \<Rightarrow> json" where
  "selectFields ks d =
     (case d of JObj kvs \<Rightarrow> JObj (filter (\<lambda>(k, v). k \<in> set (''_id'' # ks)) kvs) | _ \<Rightarrow> d)"

definition populateRef :: "string \<Rightarrow> json list \<Rightarrow> string list \<Rightarrow> json \<Rightarrow> json" where
  "populateRef field coll select d =
     (case getProp d field of
        Some (JId i) \<Rightarrow>
          setProp d field (case findById coll i of None \<Rightarrow> JNull | Some r \<Rightarrow> selectFields select r)
      | _ \<Rightarrow> d)"


subsection \<open>Updating\<close>

text \<open>
  \<open>Model.findByIdAndUpdate(id, body, { new: true })\<close>. The body is cast under strict
  mode (keys outside the schema are dropped, at every depth; setters run), then each of
  its top-level keys is one \<open>$set\<close>: an object given for a nested path replaces the
  stored object. Validators and the \<open>pre('save')\<close> hook do not run. Under
  \<open>timestamps: true\<close> Mongoose takes \<open>createdAt\<close> and \<open>updatedAt\<close> out of the body
  and sets \<open>updatedAt\<close> to the clock of the call.
\<close>

definition inSchema :: "schema \<Rightarrow> path \<Rightarrow> bool" where
  "inSchema s pre = list_ex (\<lambda>(p, po). prefix pre p) s"

fun strictVal :: "schema \<Rightarrow> path \<Rightarrow> json \<Rightarrow> json"
  and strictProps :: "schema \<Rightarrow> path \<Rightarrow> (string \<times> json) list \<Rightarrow> (string \<times> json) list" where
  "strictVal s pre (JObj kvs) =
     (case map_of s pre of Some po \<Rightarrow> JObj kvs | None \<Rightarrow> JObj (strictProps s pre kvs))"
| "strictVal s pre JNull = JNull"
| "strictVal s pre (JBool b) = JBool b"
| "strictVal s pre (JNum n) = JNum n"
| "strictVal s pre (JStr x) =
     (case map_of s pre of Some po \<Rightarrow> applySetters po (JStr x) | None \<Rightarrow> JStr x)"
| "strictVal s pre (JDate t) = JDate t"
| "strictVal s pre (JId i) = JId i"
| "strictVal s pre (JArr vs) = JArr vs"
| "strictProps s pre [] = []"
| "strictProps s pre ((k, v) # kvs) =
     (if inSchema s (pre @ [k]) then [(k, strictVal s (pre @ [k]) v)] else [])
     @ strictProps s pre kvs"

definition castUpdate :: "schema \<Rightarrow> json \<Rightarrow> (string \<times> json) list" where
  "castUpdate s body =
     (case body of
        JObj kvs \<Rightarrow> strictProps s [] (filter (\<lambda>(k, v). k \<notin> set [''createdAt'', ''updatedAt'']) kvs)
      | _ \<Rightarrow> [])"

definition applyUpdate :: "json \<Rightarrow> (string \<times> json) list \<Rightarrow> nat \<Rightarrow> json" where
  "applyUpdate d sets now =
     setProp (fold (\<lambda>(k, v) acc. setProp acc k v) sets d) ''updatedAt'' (JDate now)"

fun replaceById :: "string \<Rightarrow> json \<Rightarrow> json list \<Rightarrow> json list" where
  "replaceById i d' [] = []"
| "replaceById i d' (e # es) =
     (if getProp e ''_id'' = Some (JId i) then d' # es else e # replaceById i d' es)"

text \<open>
  The store refuses an update that would change \<open>_id\<close> or break a unique index; the
  result is the updated document, or \<open>null\<close> (\<open>None\<close>) when no document has the id.
\<close>

definition findByIdAndUpdate ::
  "schema \<Rightarrow> json list \<Rightarrow> string \<Rightarrow> json \<Rightarrow> nat \<Rightarrow> error + (json list \<times> json option)" where
  "findByIdAndUpdate s coll i body now =
     (case findById coll i of
        None \<Rightarrow> Inr (coll, None)
      | Some d \<Rightarrow>
          let d' = applyUpdate d (castUpdate s body) now
          in if getProp d' ''_id'' \<noteq> getProp d ''_id'' then Inl MongoServerError
             else if duplicateKey (filter (\<lambda>(p, po). p \<noteq> [''_id'']) s) (remove1 d coll) d'
             then Inl MongoServerError
             else Inr (replaceById i d' coll, Some d'))"

section \<open>Instance methods of the models\<close>

definition getActiveBrands :: "store \<Rightarrow> json \<Rightarrow> json list" where
  "getActiveBrands st this =
     findDocs (brands st)
       [(''organizationId'', Eq (fromJS (getProp this ''_id''))), (''isActive'', Eq (JBool True))]"

definition getActiveBusinesses :: "store \<Rightarrow> json \<Rightarrow> json list" where
  "getActiveBusinesses st this =
     findDocs (businesses st)
       [(''organizationId'', Eq (fromJS (getProp this ''_id''))), (''isActive'', Eq (JBool True))]"

definition getActiveFranchises :: "store \<Rightarrow> json \<Rightarrow> json list" where
  "getActiveFranchises st this =
     findDocs (franchises st)
       [(''businessId'', Eq (fromJS (getProp this ''_id''))), (''isActive'', Eq (JBool True))]"

text \<open>
  \<open>organizationSchema.methods.checkLimit\<close>:
  \<^verbatim>\<open>
  const limit = this.limits[limitType];
  if (limit === null) return true; // Unlimited
  switch (limitType) {
    case 'brands':     return this.brandCount < limit;
    case 'businesses': return this.businessCount < limit;
    default:           return true;
  }
  \<close>
  \<open>brandCount\<close> and \<open>businessCount\<close> are the populated virtuals, \<open>undefined\<close> on a
  document that was not populated.
\<close>

definition Organization_checkLimit :: "json \<Rightarrow> string \<Rightarrow> bool" where
  "Organization_checkLimit this limitType =
     (let limit = getPath this [''limits'', limitType]
      in if limit = Some JNull then True
         else if limitType = ''brands'' then js_lt (getProp this ''brandCount'') limit
         else if limitType = ''businesses'' then js_lt (getProp this ''businessCount'') limit
         else True)"

definition Brand_checkLimit :: "json \<Rightarrow> string \<Rightarrow> bool" where
  "Brand_checkLimit this limitType =
     (let limit = getPath this [''limits'', limitType]
      in if limit = Some JNull then True
         else if limitType = ''businesses'' then js_lt (getProp this ''businessCount'') limit
         else True)"

text \<open>\<open>businessSchema.methods.checkLimit\<close> reads \<open>this.subscription.limits[limitType]\<close>.\<close>

definition Business_checkLimit :: "json \<Rightarrow> string \<Rightarrow> bool" where
  "Business_checkLimit this limitType =
     (let limit = getPath this [''subscription'', ''limits'', limitType]
      in if limit = Some JNull then True
         else if limitType = ''franchises'' then js_lt (getProp this ''franchiseCount'') limit
         else if limitType = ''staff'' then js_lt (getProp this ''staffCount'') limit
         else True)"

subsection \<open>\<open>franchiseSchema.methods.isOpen\<close>\<close>

text \<open>
  \<^verbatim>\<open>
  const day = date.toLocaleLowerCase().substring(0, 3);
  const daySettings = this.settings.operatingHours[day];
  if (daySettings.closed) return false;
  const currentTime = date.toTimeString().substring(0, 5);
  return currentTime >= daySettings.open && currentTime <= daySettings.close;
  \<close>
  \<open>toLocaleLowerCase\<close> is a method of strings and \<open>toTimeString\<close> a method of dates:
  calling either on a value of another kind is a TypeError, and so is reading a property
  of \<open>undefined\<close> or \<open>null\<close>. The process runs in UTC.
\<close>

definition toLocaleLowerCase :: "json \<Rightarrow> string option" where
  "toLocaleLowerCase v = (case v of JStr s \<Rightarrow> Some (toLowerCase s) | _ \<Rightarrow> None)"

definition digits2 :: "nat \<Rightarrow> string" where
  "digits2 n = [char_of (48 + (n div 10) mod 10), char_of (48 + n mod 10)]"

definition toTimeString :: "json \<Rightarrow> string option" where
  "toTimeString v =
     (case v of
        JDate t \<Rightarrow>
          Some (digits2 ((t div 3600000) mod 24) @ '':'' @ digits2 ((t div 60000) mod 60) @ '':''
                @ digits2 ((t div 1000) mod 60) @ '' GMT+0000 (Coordinated Universal Time)'')
      | _ \<Rightarrow> None)"

text \<open>\<open>a >= b\<close> and \<open>a <= b\<close> for a string that is no number: false unless \<open>b\<close> is a string.\<close>

definition str_ge :: "string \<Rightarrow> json option \<Rightarrow> bool" where
  "str_ge a b = (case b of Some (JStr s) \<Rightarrow> s \<le> a | _ \<Rightarrow> False)"

definition str_le :: "string \<Rightarrow> json option \<Rightarrow> bool" where
  "str_le a b = (case b of Some (JStr s) \<Rightarrow> a \<le> s | _ \<Rightarrow> False)"

definition isOpen :: "json \<Rightarrow> json \<Rightarrow> error + bool" where
  "isOpen this date =
     (case toLocaleLowerCase date of
        None \<Rightarrow> Inl TypeError
      | Some lower \<Rightarrow>
          let day = take 3 lower;
              daySettings = getPath this [''settings'', ''operatingHours'', day]
          in (case daySettings of
                None \<Rightarrow> Inl TypeError
              | Some JNull \<Rightarrow> Inl TypeError
              | Some ds \<Rightarrow>
                  if truthy (getProp ds ''closed'') then Inr False
                  else (case toTimeString date of
                          None \<Rightarrow> Inl TypeError
                        | Some ts \<Rightarrow>
                            let currentTime = take 5 ts
                            in Inr (str_ge currentTime (getProp ds ''open'')
                                    \<and> str_le currentTime (getProp ds ''close'')))))"


section \<open>The HTTP service\<close>

record response =
  status :: nat
  body :: json

text \<open>\<open>res.json(b)\<close> answers 200; \<open>res.status(n).json(b)\<close> answers \<open>n\<close>.\<close>

definition json_res :: "nat \<Rightarrow> json \<Rightarrow> response" where
  "json_res n b = \<lparr> status = n, body = b \<rparr>"

definition failure :: "nat \<Rightarrow> string \<Rightarrow> response" where
  "failure n msg = json_res n (JObj [(''success'', JBool False), (''error'', JStr msg)])"

definition success :: "nat \<Rightarrow> json \<Rightarrow> response" where
  "success n d = json_res n (JObj [(''success'', JBool True), (''data'', d)])"

definition successList :: "json list \<Rightarrow> response" where
  "successList ds =
     json_res 200 (JObj [(''success'', JBool True), (''data'', JArr ds),
                         (''count'', JNum (int (length ds)))])"

text \<open>
  \<open>req.query\<close>, with \<open>limit\<close> and \<open>offset\<close> already read as numbers (the handlers
  apply \<open>parseInt\<close> and default to 50 and 0).
\<close>

record query =
  isActive :: "string option"
  brandId :: "string option"
  limit :: "nat option"
  offset :: "nat option"

text \<open>
  What a request takes from outside the store: the ObjectId generated for a new
  document, the clock when the handler builds the document or issues the update
  (\<open>now\<close>), and the clock when the \<open>pre('save')\<close> hook runs (\<open>later\<close>).
\<close>

record env =
  newId :: string
  now :: nat
  later :: nat

definition orDefault :: "nat option \<Rightarrow> nat \<Rightarrow> nat" where
  "orDefault v d = (case v of None \<Rightarrow> d | Some n \<Rightarrow> n)"

text \<open>\<open>if (isActive !== undefined) filter.isActive = isActive === 'true';\<close>\<close>

definition isActiveFilter :: "query \<Rightarrow> filter" where
  "isActiveFilter q =
     (case isActive q of None \<Rightarrow> [] | Some v \<Rightarrow> [(''isActive'', Eq (JBool (v = ''true'')))])"

subsection \<open>Organization routes\<close>

definition populateOrganization :: "store \<Rightarrow> json \<Rightarrow> json" where
  "populateOrganization st d =
     populateCount ''businessCount'' (businesses st) ''organizationId''
       (populateCount ''brandCount'' (brands st) ''organizationId'' d)"

definition getOrganizations :: "store \<Rightarrow> query \<Rightarrow> response" where
  "getOrganizations st q =
     (let organizations' =
            map (populateOrganization st)
              (skipLimit (orDefault (limit q) 50) (orDefault (offset q) 0)
                 (sortDocs ''createdAt'' (- 1) (findDocs (organizations st) (isActiveFilter q))))
      in successList organizations')"

definition getOrganization :: "store \<Rightarrow> string \<Rightarrow> response" where
  "getOrganization st i =
     (case findById (organizations st) i of
        None \<Rightarrow> failure 404 ''Organization not found''
      | Some organization \<Rightarrow> success 200 (populateOrganization st organization))"

definition postOrganization :: "env \<Rightarrow> store \<Rightarrow> json \<Rightarrow> store \<times> response" where
  "postOrganization e st b =
     (case save organizationSchema (organizations st)
             (construct organizationSchema b (now e) (newId e)) (later e) of
        Inl err \<Rightarrow> (st, failure 500 ''Failed to create organization'')
      | Inr (coll, organization) \<Rightarrow> (st\<lparr> organizations := coll \<rparr>, success 201 organization))"

definition putOrganization :: "env \<Rightarrow> store \<Rightarrow> string \<Rightarrow> json \<Rightarrow> store \<times> response" where
  "putOrganization e st i b =
     (case findByIdAndUpdate organizationSchema (organizations st) i b (now e) of
        Inl err \<Rightarrow> (st, failure 500 ''Failed to update organization'')
      | Inr (coll, None) \<Rightarrow> (st, failure 404 ''Organization not found'')
      | Inr (coll, Some organization) \<Rightarrow> (st\<lparr> organizations := coll \<rparr>, success 200 organization))"

subsection \<open>Brand routes\<close>

definition getBrands :: "store \<Rightarrow> string \<Rightarrow> response" where
  "getBrands st orgId =
     successList
       (sortDocs ''name'' 1
          (findDocs (brands st)
             [(''organizationId'', Eq (JId orgId)), (''isActive'', Eq (JBool True))]))"

definition postBrand :: "env \<Rightarrow> store \<Rightarrow> json \<Rightarrow> store \<times> response" where
  "postBrand e st b =
     (case save brandSchema (brands st) (construct brandSchema b (now e) (newId e)) (later e) of
        Inl err \<Rightarrow> (st, failure 500 ''Failed to create brand'')
      | Inr (coll, brand) \<Rightarrow> (st\<lparr> brands := coll \<rparr>, success 201 brand))"

subsection \<open>Business routes\<close>

definition populateBusiness :: "store \<Rightarrow> json \<Rightarrow> json" where
  "populateBusiness st d =
     populateCount ''staffCount'' (staff st) ''businessId''
       (populateCount ''franchiseCount'' (franchises st) ''businessId''
          (populateRef ''brandId'' (brands st) [''name''] d))"

text \<open>
  \<^verbatim>\<open>
  let filter = { organizationId: req.params.orgId };
  if (brandId) filter.brandId = brandId;
  if (isActive !== undefined) filter.isActive = isActive === 'true';
  \<close>
\<close>

definition getBusinesses :: "store \<Rightarrow> string \<Rightarrow> query \<Rightarrow> response" where
  "getBusinesses st orgId q =
     (let flt = [(''organizationId'', Eq (JId orgId))]
                @ (case brandId q of
                     None \<Rightarrow> []
                   | Some v \<Rightarrow> if v = [] then [] else [(''brandId'', Eq (JId v))])
                @ isActiveFilter q
      in successList
           (map (populateBusiness st)
              (skipLimit (orDefault (limit q) 50) (orDefault (offset q) 0)
                 (sortDocs ''createdAt'' (- 1) (findDocs (businesses st) flt)))))"

definition getBusiness :: "store \<Rightarrow> string \<Rightarrow> response" where
  "getBusiness st i =
     (case findById (businesses st) i of
        None \<Rightarrow> failure 404 ''Business not found''
      | Some business \<Rightarrow> success 200 (populateBusiness st business))"

definition postBusiness :: "env \<Rightarrow> store \<Rightarrow> json \<Rightarrow> store \<times> response" where
  "postBusiness e st b =
     (case save businessSchema (businesses st)
             (construct businessSchema b (now e) (newId e)) (later e) of
        Inl err \<Rightarrow> (st, failure 500 ''Failed to create business'')
      | Inr (coll, business) \<Rightarrow> (st\<lparr> businesses := coll \<rparr>, success 201 business))"

definition putBusiness :: "env \<Rightarrow> store \<Rightarrow> string \<Rightarrow> json \<Rightarrow> store \<times> response" where
  "putBusiness e st i b =
     (case findByIdAndUpdate businessSchema (businesses st) i b (now e) of
        Inl err \<Rightarrow> (st, failure 500 ''Failed to update business'')
      | Inr (coll, None) \<Rightarrow> (st, failure 404 ''Business not found'')
      | Inr (coll, Some business) \<Rightarrow> (st\<lparr> businesses := coll \<rparr>, success 200 business))"

subsection \<open>Franchise routes\<close>

definition populateFranchise :: "store \<Rightarrow> json \<Rightarrow> json" where
  "populateFranchise st d =
     populateCount ''formCount'' (forms st) ''franchiseId''
       (populateCount ''staffCount'' (staff st) ''franchiseId''
          (populateRef ''managerId'' (users st) [''firstName'', ''lastName'', ''email''] d))"

definition getFranchises :: "store \<Rightarrow> string \<Rightarrow> query \<Rightarrow> response" where
  "getFranchises st businessId q =
     (let flt = [(''businessId'', Eq (JId businessId))] @ isActiveFilter q
      in successList
           (map (populateFranchise st)
              (skipLimit (orDefault (limit q) 50) (orDefault (offset q) 0)
                 (sortDocs ''name'' 1 (findDocs (franchises st) flt)))))"

definition getFranchise :: "store \<Rightarrow> string \<Rightarrow> response" where
  "getFranchise st i =
     (case findById (franchises st) i of
        None \<Rightarrow> failure 404 ''Franchise not found''
      | Some franchise \<Rightarrow> success 200 (populateFranchise st franchise))"

definition postFranchise :: "env \<Rightarrow> store \<Rightarrow> json \<Rightarrow> store \<times> response" where
  "postFranchise e st b =
     (case save franchiseSchema (franchises st)
             (construct franchiseSchema b (now e) (newId e)) (later e) of
        Inl err \<Rightarrow> (st, failure 500 ''Failed to create franchise'')
      | Inr (coll, franchise) \<Rightarrow> (st\<lparr> franchises := coll \<rparr>, success 201 franchise))"

definition putFranchise :: "env \<Rightarrow> store \<Rightarrow> string \<Rightarrow> json \<Rightarrow> store \<times> response" where
  "putFranchise e st i b =
     (case findByIdAndUpdate franchiseSchema (franchises st) i b (now e) of
        Inl err \<Rightarrow> (st, failure 500 ''Failed to update franchise'')
      | Inr (coll, None) \<Rightarrow> (st, failure 404 ''Franchise not found'')
      | Inr (coll, Some franchise) \<Rightarrow> (st\<lparr> franchises := coll \<rparr>, success 200 franchise))"

subsection \<open>Hierarchy route\<close>

text \<open>
  \<^verbatim>\<open>
  const organization = await Organization.findById(req.params.orgId);
  if (!organization) return res.status(404).json({ ... 'Organization not found' });
  const brands = await Brand.find({ organizationId: req.params.orgId, isActive: true });
  const businesses = await Business.find({ organizationId: req.params.orgId, isActive: true })
    .populate('brandId', 'name');
  const franchises = await Franchise.find({
    businessId: { $in: businesses.map(b => b._id) }, isActive: true });
  res.json({ success: true, data: { organization, brands, businesses, franchises } });
  \<close>
\<close>

definition hierarchyBrands :: "store \<Rightarrow> string \<Rightarrow> json list" where
  "hierarchyBrands st orgId =
     findDocs (brands st) [(''organizationId'', Eq (JId orgId)), (''isActive'', Eq (JBool True))]"

definition hierarchyBusinesses :: "store \<Rightarrow> string \<Rightarrow> json list" where
  "hierarchyBusinesses st orgId =
     map (populateRef ''brandId'' (brands st) [''name''])
       (findDocs (businesses st)
          [(''organizationId'', Eq (JId orgId)), (''isActive'', Eq (JBool True))])"

definition hierarchyFranchises :: "store \<Rightarrow> json list \<Rightarrow> json list" where
  "hierarchyFranchises st businesses' =
     findDocs (franchises st)
       [(''businessId'', In (map (\<lambda>b. fromJS (getProp b ''_id'')) businesses')),
        (''isActive'', Eq (JBool True))]"

definition getHierarchy :: "store \<Rightarrow> string \<Rightarrow> response" where
  "getHierarchy st orgId =
     (case findById (organizations st) orgId of
        None \<Rightarrow> failure 404 ''Organization not found''
      | Some organization \<Rightarrow>
          let brands' = hierarchyBrands st orgId;
              businesses' = hierarchyBusinesses st orgId;
              franchises' = hierarchyFranchises st businesses'
          in success 200
               (JObj [(''organization'', organization), (''brands'', JArr brands'),
                      (''businesses'', JArr businesses'), (''franchises'', JArr franchises')]))"

subsection \<open>Routing\<close>

datatype verb = GET | POST | PUT | PATCH | DELETE

record request =
  verb :: verb
  segments :: "string list"
  params :: query
  payload :: json

text \<open>
  A route pattern against the segments of the URL; a segment \<open>:name\<close> of the pattern
  binds a parameter (\<open>req.params.name\<close>).
\<close>

fun matchRoute :: "string list \<Rightarrow> string list \<Rightarrow> (string \<times> string) list option" where
  "matchRoute [] [] = Some []"
| "matchRoute (s # ss) (u # us) =
     (case s of
        c # name \<Rightarrow>
          if c = CHR '':'' then map_option ((#) (name, u)) (matchRoute ss us)
          else if s = u then matchRoute ss us else None
      | [] \<Rightarrow> if s = u then matchRoute ss us else None)"
| "matchRoute _ _ = None"

definition param :: "(string \<times> string) list \<Rightarrow> string \<Rightarrow> string" where
  "param ps k = (case map_of ps k of None \<Rightarrow> [] | Some v \<Rightarrow> v)"

type_synonym handler = "(string \<times> string) list \<Rightarrow> env \<Rightarrow> store \<Rightarrow> request \<Rightarrow> store \<times> response"

text \<open>
  The routes in the order the service registers them (\<open>timestamp\<close> and \<open>uptime\<close> of
  \<open>/health\<close> are left out of its body; \<open>/ready\<close> answers for a store that is reachable).
\<close>

definition routes :: "(verb \<times> string list \<times> handler) list" where
  "routes =
    [(GET, [''health''], \<lambda>ps e st r.
        (st, json_res 200 (JObj [(''status'', JStr ''healthy''),
                                 (''service'', JStr ''keephy_organizations'')]))),
     (GET, [''ready''], \<lambda>ps e st r.
        (st, json_res 200 (JObj [(''status'', JStr ''ready''),
                                 (''service'', JStr ''keephy_organizations'')]))),
     (GET, [''api'', ''organizations''], \<lambda>ps e st r. (st, getOrganizations st (params r))),
     (GET, [''api'', ''organizations'', '':id''], \<lambda>ps e st r.
        (st, getOrganization st (param ps ''id''))),
     (POST, [''api'', ''organizations''], \<lambda>ps e st r. postOrganization e st (payload r)),
     (PUT, [''api'', ''organizations'', '':id''], \<lambda>ps e st r.
        putOrganization e st (param ps ''id'') (payload r)),
     (GET, [''api'', ''organizations'', '':orgId'', ''brands''], \<lambda>ps e st r.
        (st, getBrands st (param ps ''orgId''))),
     (POST, [''api'', ''brands''], \<lambda>ps e st r. postBrand e st (payload r)),
     (GET, [''api'', ''organizations'', '':orgId'', ''businesses''], \<lambda>ps e st r.
        (st, getBusinesses st (param ps ''orgId'') (params r))),
     (GET, [''api'', ''businesses'', '':id''], \<lambda>ps e st r.
        (st, getBusiness st (param ps ''id''))),
     (POST, [''api'', ''businesses''], \<lambda>ps e st r. postBusiness e st (payload r)),
     (PUT, [''api'', ''businesses'', '':id''], \<lambda>ps e st r.
        putBusiness e st (param ps ''id'') (payload r)),
     (GET, [''api'', ''businesses'', '':businessId'', ''franchises''], \<lambda>ps e st r.
        (st, getFranchises st (param ps ''businessId'') (params r))),
     (GET, [''api'', ''franchises'', '':id''], \<lambda>ps e st r.
        (st, getFranchise st (param ps ''id''))),
     (POST, [''api'', ''franchises''], \<lambda>ps e st r. postFranchise e st (payload r)),
     (PUT, [''api'', ''franchises'', '':id''], \<lambda>ps e st r.
        putFranchise e st (param ps ''id'') (payload r)),
     (GET, [''api'', ''organizations'', '':orgId'', ''hierarchy''], \<lambda>ps e st r.
        (st, getHierarchy st (param ps ''orgId'')))]"

text \<open>The first route that matches answers; \<open>app.use('*', ...)\<close> answers the rest.\<close>

fun dispatch :: "(verb \<times> string list \<times> handler) list \<Rightarrow> env \<Rightarrow> store \<Rightarrow> request \<Rightarrow> store \<times> response" where
  "dispatch [] e st r = (st, failure 404 ''Route not found'')"
| "dispatch ((m, pat, h) # rs) e st r =
     (if verb r = m
      then (case matchRoute pat (segments r) of
              Some ps \<Rightarrow> h ps e st r
            | None \<Rightarrow> dispatch rs e st r)
      else dispatch rs e st r)"

definition app :: "env \<Rightarrow> store \<Rightarrow> request \<Rightarrow> store \<times> response" where
  "app e st r = dispatch routes e st r"


section \<open>Example data\<close>

definition emptyStore :: store where
  "emptyStore = \<lparr> organizations = [], brands = [], businesses = [], franchises = [],
                   staff = [], forms = [], users = [] \<rparr>"

definition env0 :: env where
  "env0 = \<lparr> newId = ''a1'', now = 1000, later = 1001 \<rparr>"

definition noQuery :: query where
  "noQuery = \<lparr> isActive = None, brandId = None, limit = None, offset = None \<rparr>"

text \<open>A business allowed three franchises, with two active franchises and a deactivated one.\<close>

definition cafe :: json where
  "cafe = JObj [(''_id'', JId ''b1''), (''name'', JStr ''Cafe''),
                (''subscription'', JObj [(''limits'', JObj [(''franchises'', JNum 3), (''staff'', JNull)])]),
                (''isActive'', JBool True)]"

definition outlet :: "string \<Rightarrow> string \<Rightarrow> bool \<Rightarrow> json" where
  "outlet i n a = JObj [(''_id'', JId i), (''name'', JStr n), (''businessId'', JId ''b1''),
                        (''isActive'', JBool a)]"

definition cafeStore :: store where
  "cafeStore = emptyStore\<lparr> businesses := [cafe],
     franchises := [outlet ''f1'' ''North'' True, outlet ''f2'' ''South'' True,
                    outlet ''f3'' ''East'' False] \<rparr>"

text \<open>A franchise open on Mondays from 09:00 to 17:00.\<close>

definition mondayFranchise :: json where
  "mondayFranchise =
     JObj [(''_id'', JId ''f1''), (''name'', JStr ''North''),
           (''settings'', JObj [(''operatingHours'', JObj [(''monday'',
              JObj [(''open'', JStr ''09:00''), (''close'', JStr ''17:00''),
                    (''closed'', JBool False)])])])]"

text \<open>
  An organization with two active brands and a retired one, three active businesses (one
  of them under no brand) and a closed one, and franchises under two of the active
  businesses; a second, deactivated organization with a brand of its own.
\<close>

definition acme :: json where
  "acme = JObj [(''_id'', JId ''o1''), (''name'', JStr ''Acme''), (''domain'', JStr ''acme.test''),
                (''isActive'', JBool True), (''createdAt'', JDate 100), (''updatedAt'', JDate 100)]"

definition zenith :: json where
  "zenith = JObj [(''_id'', JId ''o2''), (''name'', JStr ''Zenith''), (''domain'', JStr ''zenith.test''),
                  (''isActive'', JBool False), (''createdAt'', JDate 200), (''updatedAt'', JDate 250)]"

definition mkBrand :: "string \<Rightarrow> string \<Rightarrow> string \<Rightarrow> bool \<Rightarrow> json" where
  "mkBrand i n org a =
     JObj [(''_id'', JId i), (''name'', JStr n), (''organizationId'', JId org), (''isActive'', JBool a)]"

definition mkBusiness :: "string \<Rightarrow> string \<Rightarrow> json \<Rightarrow> bool \<Rightarrow> nat \<Rightarrow> json" where
  "mkBusiness i n brand a t =
     JObj [(''_id'', JId i), (''name'', JStr n), (''organizationId'', JId ''o1''),
           (''brandId'', brand), (''isActive'', JBool a), (''createdAt'', JDate t)]"

definition mkFranchise :: "string \<Rightarrow> string \<Rightarrow> string \<Rightarrow> bool \<Rightarrow> json" where
  "mkFranchise i n business a =
     JObj [(''_id'', JId i), (''name'', JStr n), (''businessId'', JId business),
           (''managerId'', JNull), (''isActive'', JBool a)]"

definition diner :: json where
  "diner = mkBusiness ''z1'' ''Diner'' (JId ''r1'') True 10"

definition acmeStore :: store where
  "acmeStore = emptyStore\<lparr>
     organizations := [acme, zenith],
     brands := [mkBrand ''r1'' ''Bravo'' ''o1'' True, mkBrand ''r2'' ''Alpha'' ''o1'' True,
                mkBrand ''r3'' ''Retired'' ''o1'' False, mkBrand ''r4'' ''Other'' ''o2'' True],
     businesses := [diner, mkBusiness ''z2'' ''Hotel'' (JId ''r2'') True 30,
                    mkBusiness ''z3'' ''Kiosk'' JNull True 20,
                    mkBusiness ''z4'' ''Closed'' (JId ''r1'') False 40],
     franchises := [mkFranchise ''f1'' ''North'' ''z1'' True, mkFranchise ''f2'' ''South'' ''z1'' True,
                    mkFranchise ''f3'' ''East'' ''z2'' True, mkFranchise ''f4'' ''West'' ''z2'' False,
                    mkFranchise ''f5'' ''Ghost'' ''z4'' True] \<rparr>"

text \<open>A body for a new organization that gives no \<open>contact.email\<close>.\<close>

definition noEmail :: json where
  "noEmail = JObj [(''name'', JStr ''Acme''), (''contact'', JObj [(''phone'', JStr ''555'')])]"

text \<open>Bodies and documents for the examples of creation and update.\<close>

definition newOrg :: json where
  "newOrg = JObj [(''name'', JStr ''Nova''), (''domain'', JStr ''nova.test''),
                  (''contact'', JObj [(''email'', JStr ''hq@nova.test'')])]"

text \<open>The same body with a \<open>createdAt\<close> of its own, and a clock that stands still.\<close>

definition backdatedOrg :: json where
  "backdatedOrg = JObj [(''name'', JStr ''Nova''), (''domain'', JStr ''nova.test''),
                        (''contact'', JObj [(''email'', JStr ''hq@nova.test'')]),
                        (''createdAt'', JDate 5)]"

definition env1 :: env where
  "env1 = \<lparr> newId = ''a2'', now = 2000, later = 2000 \<rparr>"

definition renameBody :: json where
  "renameBody = JObj [(''name'', JStr ''X'')]"




definition orphanBrand :: json where
  "orphanBrand = JObj [(''name'', JStr ''Orphan''), (''organizationId'', JId ''ffff'')]"

text \<open>Bodies for a business and a franchise whose parents are not in the store.\<close>

definition newBusiness :: json where
  "newBusiness = JObj [(''name'', JStr ''Bistro''), (''organizationId'', JId ''ffff''),
                       (''ownerId'', JId ''u1''), (''industry'', JStr ''restaurant''),
                       (''contact'', JObj [(''email'', JStr ''chef@bistro.test'')])]"

definition newFranchise :: json where
  "newFranchise = JObj [(''name'', JStr ''Harbour''), (''businessId'', JId ''eeee''),
                        (''address'', JObj [(''street'', JStr ''1 Quay''), (''city'', JStr ''Porto''),
                           (''state'', JStr ''P''), (''country'', JStr ''PT''),
                           (''zipCode'', JStr ''4000''),
                           (''coordinates'', JObj [(''coordinates'', JArr [JNum 8, JNum 41])])])]"

section \<open>Properties of documents\<close>

lemma getProp_setProp: "getProp (setProp d k v) k' = (if k' = k then Some v else getProp d k')"
  by (cases d) (simp_all add: update_conv')

lemma getPath_single: "getPath d [k] = getProp d k"
  by (simp split: option.split)

lemma getPath_setProp_other: "k' \<noteq> k \<Longrightarrow> getPath (setProp d k v) (k' # ks) = getPath d (k' # ks)"
  by (simp add: getProp_setProp)

lemma getProp_populateCount:
  "getProp (populateCount virt coll ff d) k =
     (if k = virt then Some (JNum (int (countRefs coll ff d))) else getProp d k)"
  by (simp add: populateCount_def getProp_setProp)

lemma getPath_populateCount_other:
  "k \<noteq> virt \<Longrightarrow> getPath (populateCount virt coll ff d) (k # ks) = getPath d (k # ks)"
  by (simp add: getProp_populateCount)

lemma countRefs_populateCount:
  "virt \<noteq> ''_id'' \<Longrightarrow> countRefs coll' ff' (populateCount virt coll ff d) = countRefs coll' ff' d"
  by (simp add: countRefs_def getProp_populateCount)

lemma getProp_populateRef_other:
  "k \<noteq> field \<Longrightarrow> getProp (populateRef field coll sel d) k = getProp d k"
  by (simp add: populateRef_def getProp_setProp split: option.split json.split)

lemma countRefs_cong_id:
  "getProp d' ''_id'' = getProp d ''_id'' \<Longrightarrow> countRefs coll ff d' = countRefs coll ff d"
  by (simp add: countRefs_def)

lemma getProp_populateOrganization:
  "getProp (populateOrganization st d) k =
    (if k = ''businessCount'' then Some (JNum (int (countRefs (businesses st) ''organizationId'' d)))
     else if k = ''brandCount'' then Some (JNum (int (countRefs (brands st) ''organizationId'' d)))
     else getProp d k)"
  by (simp add: populateOrganization_def getProp_populateCount countRefs_populateCount)

lemma getProp_populateBusiness:
  "getProp (populateBusiness st d) k =
    (if k = ''staffCount'' then Some (JNum (int (countRefs (staff st) ''businessId'' d)))
     else if k = ''franchiseCount'' then Some (JNum (int (countRefs (franchises st) ''businessId'' d)))
     else getProp (populateRef ''brandId'' (brands st) [''name''] d) k)"
  by (simp add: populateBusiness_def getProp_populateCount countRefs_populateCount
        countRefs_cong_id [OF getProp_populateRef_other])

lemma getPath_cons:
  "getPath d (k # ks) = (case getProp d k of None \<Rightarrow> None | Some c \<Rightarrow> getPath c ks)"
  by simp




lemma findById_Some:
  "findById coll i = Some d \<Longrightarrow> d \<in> set coll \<and> getProp d ''_id'' = Some (JId i)"
  by (auto simp: findById_def find_Some_iff)

lemma status_failure: "status (failure n msg) = n"
  by (simp add: failure_def json_res_def)




section \<open>Usage limits\<close>

text \<open>
  C10. On an Organization, a Brand or a Business, \<open>checkLimit\<close> with a limit type
  outside the ones the method names (brands and businesses; businesses; franchises and
  staff) answers true, whatever limits are configured and whatever the counts are.
\<close>

theorem checkLimit_unknown_type:
  "(t \<noteq> ''brands'' \<and> t \<noteq> ''businesses'' \<longrightarrow> Organization_checkLimit org t) \<and>
   (t \<noteq> ''businesses'' \<longrightarrow> Brand_checkLimit brand t) \<and>
   (t \<noteq> ''franchises'' \<and> t \<noteq> ''staff'' \<longrightarrow> Business_checkLimit business t)"
  by (simp add: Organization_checkLimit_def Brand_checkLimit_def Business_checkLimit_def Let_def)

theorem checkLimit_unknown_type_witness:
  "Organization_checkLimit
     (JObj [(''limits'', JObj [(''users'', JNum 0)]), (''brandCount'', JNum 7)]) ''users'' \<and>
   Brand_checkLimit
     (JObj [(''limits'', JObj [(''users'', JNum 0)]), (''businessCount'', JNum 7)]) ''users'' \<and>
   Business_checkLimit
     (JObj [(''subscription'', JObj [(''limits'', JObj [(''users'', JNum 0)])]),
            (''franchiseCount'', JNum 7)]) ''users''"
  using checkLimit_unknown_type [of "''users''"] by simp


text \<open>
  C2 (as the code has it). \<open>checkLimit\<close> answers true when the configured limit is
  \<open>null\<close>. When the limit is a number and the count virtual has been populated, it
  answers true exactly when the number of all documents of the child collection that
  refer to the entity, active or not, is below the limit: the virtuals
  \<open>brandCount\<close>, \<open>businessCount\<close>, \<open>franchiseCount\<close> and \<open>staffCount\<close> count
  without a condition on \<open>isActive\<close>.
\<close>

theorem checkLimit_counts_all_children:
  "(getPath org [''limits'', t] = Some JNull \<longrightarrow> Organization_checkLimit org t) \<and>
   (getPath brand [''limits'', t] = Some JNull \<longrightarrow> Brand_checkLimit brand t) \<and>
   (getPath business [''subscription'', ''limits'', t] = Some JNull \<longrightarrow>
      Business_checkLimit business t) \<and>
   (getPath org [''limits'', ''brands''] = Some (JNum n) \<longrightarrow>
      Organization_checkLimit (populateOrganization st org) ''brands''
        = (int (countRefs (brands st) ''organizationId'' org) < n)) \<and>
   (getPath org [''limits'', ''businesses''] = Some (JNum n) \<longrightarrow>
      Organization_checkLimit (populateOrganization st org) ''businesses''
        = (int (countRefs (businesses st) ''organizationId'' org) < n)) \<and>
   (getPath brand [''limits'', ''businesses''] = Some (JNum n) \<longrightarrow>
      Brand_checkLimit (populateCount ''businessCount'' (businesses st) ''brandId'' brand)
          ''businesses''
        = (int (countRefs (businesses st) ''brandId'' brand) < n)) \<and>
   (getPath business [''subscription'', ''limits'', ''franchises''] = Some (JNum n) \<longrightarrow>
      Business_checkLimit (populateBusiness st business) ''franchises''
        = (int (countRefs (franchises st) ''businessId'' business) < n)) \<and>
   (getPath business [''subscription'', ''limits'', ''staff''] = Some (JNum n) \<longrightarrow>
      Business_checkLimit (populateBusiness st business) ''staff''
        = (int (countRefs (staff st) ''businessId'' business) < n))"
proof (intro conjI impI)
  show "getPath org [''limits'', t] = Some JNull \<Longrightarrow> Organization_checkLimit org t"
    by (simp add: Organization_checkLimit_def)
  show "getPath brand [''limits'', t] = Some JNull \<Longrightarrow> Brand_checkLimit brand t"
    by (simp add: Brand_checkLimit_def)
  show "getPath business [''subscription'', ''limits'', t] = Some JNull \<Longrightarrow>
        Business_checkLimit business t"
    by (simp add: Business_checkLimit_def)
next
  assume h: "getPath org [''limits'', ''brands''] = Some (JNum n)"
  have "getPath (populateOrganization st org) [''limits'', ''brands''] = Some (JNum n)"
    using h by (simp only: getPath_cons getProp_populateOrganization) simp
  then show "Organization_checkLimit (populateOrganization st org) ''brands''
        = (int (countRefs (brands st) ''organizationId'' org) < n)"
    by (simp add: Organization_checkLimit_def Let_def js_lt_def getProp_populateOrganization
          del: getPath.simps)
next
  assume h: "getPath org [''limits'', ''businesses''] = Some (JNum n)"
  have "getPath (populateOrganization st org) [''limits'', ''businesses''] = Some (JNum n)"
    using h by (simp only: getPath_cons getProp_populateOrganization) simp
  then show "Organization_checkLimit (populateOrganization st org) ''businesses''
        = (int (countRefs (businesses st) ''organizationId'' org) < n)"
    by (simp add: Organization_checkLimit_def Let_def js_lt_def getProp_populateOrganization
          del: getPath.simps)
next
  assume h: "getPath brand [''limits'', ''businesses''] = Some (JNum n)"
  have "getPath (populateCount ''businessCount'' (businesses st) ''brandId'' brand)
          [''limits'', ''businesses''] = Some (JNum n)"
    using h by (simp only: getPath_cons getProp_populateCount) simp
  then show "Brand_checkLimit (populateCount ''businessCount'' (businesses st) ''brandId'' brand)
          ''businesses''
        = (int (countRefs (businesses st) ''brandId'' brand) < n)"
    by (simp add: Brand_checkLimit_def Let_def js_lt_def getProp_populateCount
          del: getPath.simps)
next
  assume h: "getPath business [''subscription'', ''limits'', ''franchises''] = Some (JNum n)"
  have "getPath (populateBusiness st business) [''subscription'', ''limits'', ''franchises'']
          = Some (JNum n)"
    using h by (simp only: getPath_cons getProp_populateBusiness)
      (simp add: getProp_populateRef_other)
  then show "Business_checkLimit (populateBusiness st business) ''franchises''
        = (int (countRefs (franchises st) ''businessId'' business) < n)"
    by (simp add: Business_checkLimit_def Let_def js_lt_def getProp_populateBusiness
          del: getPath.simps)
next
  assume h: "getPath business [''subscription'', ''limits'', ''staff''] = Some (JNum n)"
  have "getPath (populateBusiness st business) [''subscription'', ''limits'', ''staff'']
          = Some (JNum n)"
    using h by (simp only: getPath_cons getProp_populateBusiness)
      (simp add: getProp_populateRef_other)
  then show "Business_checkLimit (populateBusiness st business) ''staff''
        = (int (countRefs (staff st) ''businessId'' business) < n)"
    by (simp add: Business_checkLimit_def Let_def js_lt_def getProp_populateBusiness
          del: getPath.simps)
qed

lemma cafe_counts:
  "countRefs (franchises cafeStore) ''businessId'' cafe = 3"
  "length (getActiveFranchises cafeStore cafe) = 2"
  by (simp_all add: countRefs_def cafeStore_def cafe_def outlet_def emptyStore_def fromJS_def
       getActiveFranchises_def findDocs_def matches_def)

lemma cafe_limit: "getPath cafe [''subscription'', ''limits'', ''franchises''] = Some (JNum 3)"
  by (simp add: cafe_def)

text \<open>
  The cafe is allowed three franchises and has three, one of them deactivated: it may not
  open another one, and its staff is unlimited.
\<close>

theorem checkLimit_counts_all_children_witness:
  "getPath cafe [''subscription'', ''limits'', ''staff''] = Some JNull \<and>
   Business_checkLimit cafe ''staff'' \<and>
   getPath cafe [''subscription'', ''limits'', ''franchises''] = Some (JNum 3) \<and>
   Business_checkLimit (populateBusiness cafeStore cafe) ''franchises''
     = (int (countRefs (franchises cafeStore) ''businessId'' cafe) < 3) \<and>
   countRefs (franchises cafeStore) ''businessId'' cafe = 3"
  using checkLimit_counts_all_children [of cafe "''staff''" cafe cafe 3 cafeStore]
  by (simp add: cafe_counts cafe_limit) (simp add: cafe_def)

text \<open>
  C2 as the specification states it fails there: two active franchises are fewer than the
  three allowed, and \<open>checkLimit\<close> still answers false.
\<close>

theorem checkLimit_active_only_counterexample:
  "\<not> (Business_checkLimit (populateBusiness cafeStore cafe) ''franchises''
        = (int (length (getActiveFranchises cafeStore cafe)) < 3))"
proof -
  have "getProp (populateBusiness cafeStore cafe) ''franchiseCount'' = Some (JNum 3)"
    by (simp add: getProp_populateBusiness cafe_counts)
  moreover have "getPath (populateBusiness cafeStore cafe)
      [''subscription'', ''limits'', ''franchises''] = Some (JNum 3)"
    using cafe_limit by (simp only: getPath_cons getProp_populateBusiness)
      (simp add: getProp_populateRef_other)
  ultimately have "\<not> Business_checkLimit (populateBusiness cafeStore cafe) ''franchises''"
    by (simp add: Business_checkLimit_def Let_def js_lt_def del: getPath.simps)
  then show ?thesis by (simp add: cafe_counts)
qed

section \<open>Opening hours\<close>

text \<open>
  \<open>isOpen\<close> calls \<open>date.toLocaleLowerCase()\<close> first. A Date has no such method, so
  the call raises a TypeError for every franchise and every instant, before the operating
  hours are looked at.
\<close>

lemma isOpen_Date: "isOpen this (JDate t) = Inl TypeError"
  by (simp add: isOpen_def toLocaleLowerCase_def)

text \<open>
  C3 at Monday 1 January 2024, 12:00 UTC, for a franchise open on Mondays from 09:00 to
  17:00: the specification asks for true, the method raises.
\<close>

theorem isOpen_monday_noon: "isOpen mondayFranchise (JDate 1704110400000) = Inl TypeError"
  by (rule isOpen_Date)


section \<open>The hierarchy of an organization\<close>










text \<open>
  The hierarchy of the example organization: its two active brands, its three active
  businesses (the branded ones with the name of their brand) and the three active
  franchises of those businesses.
\<close>

lemma acme_hierarchy:
  "getHierarchy acmeStore ''o1'' =
     success 200 (JObj
       [(''organization'', acme),
        (''brands'', JArr [mkBrand ''r1'' ''Bravo'' ''o1'' True, mkBrand ''r2'' ''Alpha'' ''o1'' True]),
        (''businesses'', JArr
           [mkBusiness ''z1'' ''Diner'' (JObj [(''_id'', JId ''r1''), (''name'', JStr ''Bravo'')]) True 10,
            mkBusiness ''z2'' ''Hotel'' (JObj [(''_id'', JId ''r2''), (''name'', JStr ''Alpha'')]) True 30,
            mkBusiness ''z3'' ''Kiosk'' JNull True 20]),
        (''franchises'', JArr
           [mkFranchise ''f1'' ''North'' ''z1'' True, mkFranchise ''f2'' ''South'' ''z1'' True,
            mkFranchise ''f3'' ''East'' ''z2'' True])])"
  by code_simp




section \<open>Fetching one document\<close>












section \<open>Listings\<close>

lemma bsonKey_date: "bsonKey (Some (JDate a)) \<le> bsonKey (Some (JDate b)) \<longleftrightarrow> a \<le> b"
  by (auto simp: less_eq_prod_def)






lemma acme_brands_by_name:
  "getBrands acmeStore ''o1'' =
     successList [mkBrand ''r2'' ''Alpha'' ''o1'' True, mkBrand ''r1'' ''Bravo'' ''o1'' True]"
  by code_simp

lemma acme_businesses_newest_first:
  "getBusinesses acmeStore ''o1'' noQuery =
     successList (map (populateBusiness acmeStore)
       [mkBusiness ''z4'' ''Closed'' (JId ''r1'') False 40,
        mkBusiness ''z2'' ''Hotel'' (JId ''r2'') True 30,
        mkBusiness ''z3'' ''Kiosk'' JNull True 20,
        mkBusiness ''z1'' ''Diner'' (JId ''r1'') True 10])"
  by code_simp

lemma acme_organizations_newest_first:
  "getOrganizations acmeStore noQuery =
     successList (map (populateOrganization acmeStore) [zenith, acme])"
  by code_simp

lemma acme_franchises_by_name:
  "getFranchises acmeStore ''z2'' noQuery =
     successList (map (populateFranchise acmeStore)
       [mkFranchise ''f3'' ''East'' ''z2'' True, mkFranchise ''f4'' ''West'' ''z2'' False])"
  by code_simp


section \<open>Creating documents\<close>

lemma getPath_setPath_same: "getPath (setPath d p v) p = Some v"
  by (induction p arbitrary: d) (simp_all add: getProp_setProp)

lemma getPath_empty_obj: "p \<noteq> [] \<Longrightarrow> getPath (JObj []) p = None"
  by (cases p) simp_all

lemma getPath_setPath_indep:
  "\<not> prefix p q \<Longrightarrow> \<not> prefix q p \<Longrightarrow> getPath (setPath d q v) p = getPath d p"
proof (induction q arbitrary: d p)
  case Nil
  then show ?case by simp
next
  case (Cons k ks)
  then obtain k' ps where p: "p = k' # ps" by (cases p) auto
  show ?case
  proof (cases "k' = k")
    case False
    then show ?thesis by (simp add: p getProp_setProp)
  next
    case True
    with Cons.prems p have np: "\<not> prefix ps ks" "\<not> prefix ks ps" by simp_all
    then have ne: "ps \<noteq> []" by auto
    show ?thesis
      using Cons.IH [OF np] ne
      by (simp add: p True getProp_setProp getPath_empty_obj split: option.split)
  qed
qed

lemma assign_absent:
  "getPath bd p = None \<Longrightarrow> getPath d p = None \<Longrightarrow>
   list_all (\<lambda>(q, qo). (q = p \<and> dflt qo = None) \<or> (\<not> prefix p q \<and> \<not> prefix q p)) s \<Longrightarrow>
   getPath (assign s bd t0 oid d) p = None"
proof (induction s arbitrary: d)
  case Nil
  then show ?case by simp
next
  case (Cons a s)
  obtain q qo where a: "a = (q, qo)" by (cases a)
  let ?d' = "case getPath bd q of
          Some v \<Rightarrow> setPath d q (applySetters qo v)
        | None \<Rightarrow> (case dflt qo of
                     None \<Rightarrow> d
                   | Some df \<Rightarrow> setPath d q (evalDefault df t0 oid))"
  have "getPath ?d' p = None"
    using Cons.prems a by (auto simp: getPath_setPath_indep split: option.split)
  moreover have "list_all (\<lambda>(q, qo). (q = p \<and> dflt qo = None) \<or> (\<not> prefix p q \<and> \<not> prefix q p)) s"
    using Cons.prems by simp
  ultimately show ?case
    using Cons.IH [of ?d'] Cons.prems(1) by (simp add: a)
qed

lemma assign_present:
  "distinct (map fst s) \<Longrightarrow>
   list_all (\<lambda>(q, qo). q = p \<or> (\<not> prefix p q \<and> \<not> prefix q p)) s \<Longrightarrow>
   getPath (assign s bd t0 oid d) p =
     (case map_of s p of
        None \<Rightarrow> getPath d p
      | Some po \<Rightarrow>
          (case getPath bd p of
             Some v \<Rightarrow> Some (applySetters po v)
           | None \<Rightarrow> (case dflt po of
                        None \<Rightarrow> getPath d p
                      | Some df \<Rightarrow> Some (evalDefault df t0 oid))))"
proof (induction s arbitrary: d)
  case Nil
  then show ?case by simp
next
  case (Cons a s)
  obtain q qo where a: "a = (q, qo)" by (cases a)
  define d' where "d' = (case getPath bd q of
          Some v \<Rightarrow> setPath d q (applySetters qo v)
        | None \<Rightarrow> (case dflt qo of
                     None \<Rightarrow> d
                   | Some df \<Rightarrow> setPath d q (evalDefault df t0 oid)))"
  have step: "assign (a # s) bd t0 oid d = assign s bd t0 oid d'"
    by (simp add: a d'_def)
  have rest: "list_all (\<lambda>(q, qo). q = p \<or> (\<not> prefix p q \<and> \<not> prefix q p)) s" "distinct (map fst s)"
    using Cons.prems by simp_all
  note IH = Cons.IH [OF rest(2) rest(1), of d']
  show ?case
  proof (cases "q = p")
    case True
    then have none: "map_of s p = None"
      using Cons.prems(1) a by (simp add: map_of_eq_None_iff)
    have "getPath d' p =
        (case getPath bd p of
             Some v \<Rightarrow> Some (applySetters qo v)
           | None \<Rightarrow> (case dflt qo of
                        None \<Rightarrow> getPath d p
                      | Some df \<Rightarrow> Some (evalDefault df t0 oid)))"
      by (simp add: d'_def True getPath_setPath_same split: option.split)
    then show ?thesis
      by (simp only: step IH none) (simp add: a True)
  next
    case False
    then have "\<not> prefix p q" "\<not> prefix q p" using Cons.prems(2) a by simp_all
    then have "getPath d' p = getPath d p"
      by (simp add: d'_def getPath_setPath_indep split: option.split)
    then show ?thesis
      using False by (simp only: step IH) (simp add: a)
  qed
qed

text \<open>
  In each schema a required path has no default and is neither above nor below another
  path, so a body that leaves the path out leaves it out of the constructed document.
\<close>

lemma required_paths_organization:
  "list_all (\<lambda>(p, po). \<not> required po \<or> (p \<noteq> [] \<and>
      list_all (\<lambda>(q, qo). (q = p \<and> dflt qo = None) \<or> (\<not> prefix p q \<and> \<not> prefix q p))
        organizationSchema)) organizationSchema"
  by code_simp

lemma required_paths_brand:
  "list_all (\<lambda>(p, po). \<not> required po \<or> (p \<noteq> [] \<and>
      list_all (\<lambda>(q, qo). (q = p \<and> dflt qo = None) \<or> (\<not> prefix p q \<and> \<not> prefix q p))
        brandSchema)) brandSchema"
  by code_simp

lemma required_paths_business:
  "list_all (\<lambda>(p, po). \<not> required po \<or> (p \<noteq> [] \<and>
      list_all (\<lambda>(q, qo). (q = p \<and> dflt qo = None) \<or> (\<not> prefix p q \<and> \<not> prefix q p))
        businessSchema)) businessSchema"
  by code_simp

lemma required_paths_franchise:
  "list_all (\<lambda>(p, po). \<not> required po \<or> (p \<noteq> [] \<and>
      list_all (\<lambda>(q, qo). (q = p \<and> dflt qo = None) \<or> (\<not> prefix p q \<and> \<not> prefix q p))
        franchiseSchema)) franchiseSchema"
  by code_simp

lemma save_rejects:
  assumes ok: "list_all (\<lambda>(p, po). \<not> required po \<or> (p \<noteq> [] \<and>
      list_all (\<lambda>(q, qo). (q = p \<and> dflt qo = None) \<or> (\<not> prefix p q \<and> \<not> prefix q p)) s)) s"
    and mem: "(p, po) \<in> set s" and req: "required po" and none: "getPath b p = None"
  shows "save s coll (construct s b t0 oid) t1 = Inl ValidationError"
proof -
  from ok mem req have ne: "p \<noteq> []"
    and ind: "list_all (\<lambda>(q, qo). (q = p \<and> dflt qo = None) \<or> (\<not> prefix p q \<and> \<not> prefix q p)) s"
    by (auto simp: list_all_iff)
  have "getPath (construct s b t0 oid) p = None"
    unfolding construct_def by (rule assign_absent [OF none getPath_empty_obj [OF ne] ind])
  then have "\<not> pathValid po (getPath (construct s b t0 oid) p)"
    using req by (simp add: pathValid_def absent_def)
  then have "\<not> validate s (construct s b t0 oid)"
    using mem by (auto simp: validate_def list_all_iff)
  then show ?thesis by (simp add: save_def)
qed

lemma route_post:
  "app e st \<lparr> verb = POST, segments = [''api'', ''organizations''], params = q, payload = b \<rparr>
     = postOrganization e st b"
  "app e st \<lparr> verb = POST, segments = [''api'', ''brands''], params = q, payload = b \<rparr>
     = postBrand e st b"
  "app e st \<lparr> verb = POST, segments = [''api'', ''businesses''], params = q, payload = b \<rparr>
     = postBusiness e st b"
  "app e st \<lparr> verb = POST, segments = [''api'', ''franchises''], params = q, payload = b \<rparr>
     = postFranchise e st b"
  by (simp_all add: app_def routes_def)

lemma required_lists:
  "map fst (filter (\<lambda>(p, po). required po) organizationSchema) = [[''name''], [''contact'', ''email'']]"
  "map fst (filter (\<lambda>(p, po). required po) brandSchema) = [[''name''], [''organizationId'']]"
  "map fst (filter (\<lambda>(p, po). required po) businessSchema) =
     [[''name''], [''organizationId''], [''ownerId''], [''industry''], [''contact'', ''email'']]"
  "map fst (filter (\<lambda>(p, po). required po) franchiseSchema) =
     [[''name''], [''businessId''], [''address'', ''street''], [''address'', ''city''],
      [''address'', ''state''], [''address'', ''country''], [''address'', ''zipCode''],
      [''address'', ''coordinates'', ''coordinates'']]"
  by code_simp+

lemma post_rejects:
  "(p, po) \<in> set organizationSchema \<Longrightarrow> required po \<Longrightarrow> getPath b p = None \<Longrightarrow>
     postOrganization e st b = (st, failure 500 ''Failed to create organization'')"
  "(p, po) \<in> set brandSchema \<Longrightarrow> required po \<Longrightarrow> getPath b p = None \<Longrightarrow>
     postBrand e st b = (st, failure 500 ''Failed to create brand'')"
  "(p, po) \<in> set businessSchema \<Longrightarrow> required po \<Longrightarrow> getPath b p = None \<Longrightarrow>
     postBusiness e st b = (st, failure 500 ''Failed to create business'')"
  "(p, po) \<in> set franchiseSchema \<Longrightarrow> required po \<Longrightarrow> getPath b p = None \<Longrightarrow>
     postFranchise e st b = (st, failure 500 ''Failed to create franchise'')"
  by (simp_all add: postOrganization_def postBrand_def postBusiness_def postFranchise_def
       save_rejects [OF required_paths_organization] save_rejects [OF required_paths_brand]
       save_rejects [OF required_paths_business] save_rejects [OF required_paths_franchise])

text \<open>
  C4 (as the code has it). A create whose body leaves out a required path of the model
  (the four lists are the required paths of the four schemas) stores nothing and is
  answered \<open>{success: false, error: 'Failed to create ...'}\<close> with status 500: the
  handlers catch the validation error together with every other error.
\<close>

theorem create_missing_required:
  "((p, po) \<in> set organizationSchema \<and> required po \<and> getPath b p = None \<longrightarrow>
      postOrganization e st b = (st, failure 500 ''Failed to create organization'')) \<and>
   ((p, po) \<in> set brandSchema \<and> required po \<and> getPath b p = None \<longrightarrow>
      postBrand e st b = (st, failure 500 ''Failed to create brand'')) \<and>
   ((p, po) \<in> set businessSchema \<and> required po \<and> getPath b p = None \<longrightarrow>
      postBusiness e st b = (st, failure 500 ''Failed to create business'')) \<and>
   ((p, po) \<in> set franchiseSchema \<and> required po \<and> getPath b p = None \<longrightarrow>
      postFranchise e st b = (st, failure 500 ''Failed to create franchise'')) \<and>
   map fst (filter (\<lambda>(p, po). required po) organizationSchema)
     = [[''name''], [''contact'', ''email'']] \<and>
   map fst (filter (\<lambda>(p, po). required po) brandSchema) = [[''name''], [''organizationId'']] \<and>
   map fst (filter (\<lambda>(p, po). required po) businessSchema)
     = [[''name''], [''organizationId''], [''ownerId''], [''industry''], [''contact'', ''email'']] \<and>
   map fst (filter (\<lambda>(p, po). required po) franchiseSchema)
     = [[''name''], [''businessId''], [''address'', ''street''], [''address'', ''city''],
        [''address'', ''state''], [''address'', ''country''], [''address'', ''zipCode''],
        [''address'', ''coordinates'', ''coordinates'']] \<and>
   app e st \<lparr> verb = POST, segments = [''api'', ''organizations''], params = q, payload = b \<rparr>
     = postOrganization e st b \<and>
   app e st \<lparr> verb = POST, segments = [''api'', ''brands''], params = q, payload = b \<rparr>
     = postBrand e st b \<and>
   app e st \<lparr> verb = POST, segments = [''api'', ''businesses''], params = q, payload = b \<rparr>
     = postBusiness e st b \<and>
   app e st \<lparr> verb = POST, segments = [''api'', ''franchises''], params = q, payload = b \<rparr>
     = postFranchise e st b"
  by (intro conjI impI required_lists route_post; elim conjE)
    (rule post_rejects; assumption)+

theorem create_missing_required_witness:
  "([''contact'', ''email''], (ofType SString)\<lparr> required := True \<rparr>) \<in> set organizationSchema \<and>
   required ((ofType SString)\<lparr> required := True \<rparr>) \<and>
   getPath noEmail [''contact'', ''email''] = None \<and>
   postOrganization env0 acmeStore noEmail
     = (acmeStore, failure 500 ''Failed to create organization'') \<and>
   ([''organizationId''], (ofType SObjectId)\<lparr> required := True \<rparr>) \<in> set brandSchema \<and>
   getPath renameBody [''organizationId''] = None \<and>
   postBrand env0 acmeStore renameBody = (acmeStore, failure 500 ''Failed to create brand'') \<and>
   ([''ownerId''], (ofType SObjectId)\<lparr> required := True \<rparr>) \<in> set businessSchema \<and>
   getPath renameBody [''ownerId''] = None \<and>
   postBusiness env0 acmeStore renameBody = (acmeStore, failure 500 ''Failed to create business'') \<and>
   ([''address'', ''city''], (ofType SString)\<lparr> required := True \<rparr>) \<in> set franchiseSchema \<and>
   getPath renameBody [''address'', ''city''] = None \<and>
   postFranchise env0 acmeStore renameBody = (acmeStore, failure 500 ''Failed to create franchise'')"
proof -
  have m: "([''contact'', ''email''], (ofType SString)\<lparr> required := True \<rparr>) \<in> set organizationSchema"
    "([''organizationId''], (ofType SObjectId)\<lparr> required := True \<rparr>) \<in> set brandSchema"
    "([''ownerId''], (ofType SObjectId)\<lparr> required := True \<rparr>) \<in> set businessSchema"
    "([''address'', ''city''], (ofType SString)\<lparr> required := True \<rparr>) \<in> set franchiseSchema"
    by (simp_all add: organizationSchema_def brandSchema_def businessSchema_def franchiseSchema_def)
  have r: "required ((ofType SString)\<lparr> required := True \<rparr>)"
    "required ((ofType SObjectId)\<lparr> required := True \<rparr>)" by simp_all
  have g: "getPath noEmail [''contact'', ''email''] = None"
    "getPath renameBody [''organizationId''] = None"
    "getPath renameBody [''ownerId''] = None"
    "getPath renameBody [''address'', ''city''] = None"
    by (simp_all add: noEmail_def renameBody_def)
  note 1 = create_missing_required
      [of "[''contact'', ''email'']" "(ofType SString)\<lparr> required := True \<rparr>" noEmail env0 acmeStore,
       THEN conjunct1, rule_format, OF conjI [OF m(1) conjI [OF r(1) g(1)]]]
  note 2 = create_missing_required
      [of "[''organizationId'']" "(ofType SObjectId)\<lparr> required := True \<rparr>" renameBody env0 acmeStore,
       THEN conjunct2, THEN conjunct1, rule_format, OF conjI [OF m(2) conjI [OF r(2) g(2)]]]
  note 3 = create_missing_required
      [of "[''ownerId'']" "(ofType SObjectId)\<lparr> required := True \<rparr>" renameBody env0 acmeStore,
       THEN conjunct2, THEN conjunct2, THEN conjunct1, rule_format,
       OF conjI [OF m(3) conjI [OF r(2) g(3)]]]
  note 4 = create_missing_required
      [of "[''address'', ''city'']" "(ofType SString)\<lparr> required := True \<rparr>" renameBody env0 acmeStore,
       THEN conjunct2, THEN conjunct2, THEN conjunct2, THEN conjunct1, rule_format,
       OF conjI [OF m(4) conjI [OF r(1) g(4)]]]
  show ?thesis
    by (intro conjI m r(1) g 1 2 3 4)
qed

text \<open>C4 as the specification states it asks for status 400.\<close>

theorem create_missing_required_counterexample:
  "getPath noEmail [''contact'', ''email''] = None \<and>
   status (snd (postOrganization env0 acmeStore noEmail)) = 500 \<and>
   status (snd (postOrganization env0 acmeStore noEmail)) \<noteq> 400"
  by code_simp

subsection \<open>What a created document holds\<close>

lemma applySetters_plain: "\<not> trim po \<Longrightarrow> \<not> lowercase po \<Longrightarrow> applySetters po v = v"
  by (cases v) (simp_all add: applySetters_def)

lemma construct_leaf:
  assumes "distinct (map fst s)"
    and "list_all (\<lambda>(q, qo). q = [k] \<or> (\<not> prefix [k] q \<and> \<not> prefix q [k])) s"
    and "map_of s [k] = Some po" and "\<not> trim po" and "\<not> lowercase po"
  shows "getProp (construct s b t0 oid) k =
     (case getProp b k of
        Some v \<Rightarrow> Some v
      | None \<Rightarrow> map_option (\<lambda>df. evalDefault df t0 oid) (dflt po))"
proof -
  have "getPath (construct s b t0 oid) [k] =
     (case getPath b [k] of
        Some v \<Rightarrow> Some (applySetters po v)
      | None \<Rightarrow> (case dflt po of
                   None \<Rightarrow> getPath (JObj []) [k]
                 | Some df \<Rightarrow> Some (evalDefault df t0 oid)))"
    unfolding construct_def using assign_present [OF assms(1,2), of b t0 oid "JObj []"]
    by (simp only: assms(3) option.case)
  then show ?thesis
    by (simp add: getPath_single applySetters_plain [OF assms(4,5)] del: getPath.simps
          split: option.split)
qed

lemma save_Inr:
  "save s coll d t1 = Inr (coll', d') \<Longrightarrow> d' = preSave d t1 \<and> coll' = coll @ [d']"
  by (auto simp: save_def Let_def split: if_splits)

lemma getProp_preSave:
  "getProp (preSave d t1) k = (if k = ''updatedAt'' then Some (JDate t1) else getProp d k)"
  by (simp add: preSave_def getProp_setProp)

lemma leaf_createdAt:
  "distinct (map fst organizationSchema) \<and>
   list_all (\<lambda>(q, qo). q = [''createdAt''] \<or> (\<not> prefix [''createdAt''] q \<and> \<not> prefix q [''createdAt'']))
     organizationSchema \<and>
   map_of organizationSchema [''createdAt''] = Some ((ofType SDate)\<lparr> dflt := Some DNow \<rparr>)"
  "distinct (map fst brandSchema) \<and>
   list_all (\<lambda>(q, qo). q = [''createdAt''] \<or> (\<not> prefix [''createdAt''] q \<and> \<not> prefix q [''createdAt'']))
     brandSchema \<and>
   map_of brandSchema [''createdAt''] = Some ((ofType SDate)\<lparr> dflt := Some DNow \<rparr>)"
  "distinct (map fst businessSchema) \<and>
   list_all (\<lambda>(q, qo). q = [''createdAt''] \<or> (\<not> prefix [''createdAt''] q \<and> \<not> prefix q [''createdAt'']))
     businessSchema \<and>
   map_of businessSchema [''createdAt''] = Some ((ofType SDate)\<lparr> dflt := Some DNow \<rparr>)"
  "distinct (map fst franchiseSchema) \<and>
   list_all (\<lambda>(q, qo). q = [''createdAt''] \<or> (\<not> prefix [''createdAt''] q \<and> \<not> prefix q [''createdAt'']))
     franchiseSchema \<and>
   map_of franchiseSchema [''createdAt''] = Some ((ofType SDate)\<lparr> dflt := Some DNow \<rparr>)"
  by code_simp+

lemma createdAt_construct:
  assumes "distinct (map fst s) \<and>
   list_all (\<lambda>(q, qo). q = [''createdAt''] \<or> (\<not> prefix [''createdAt''] q \<and> \<not> prefix q [''createdAt''])) s \<and>
   map_of s [''createdAt''] = Some ((ofType SDate)\<lparr> dflt := Some DNow \<rparr>)"
  shows "getProp (construct s b t0 oid) ''createdAt'' =
     Some (case getProp b ''createdAt'' of None \<Rightarrow> JDate t0 | Some v \<Rightarrow> v)"
  using assms
  by (subst construct_leaf [where po = "(ofType SDate)\<lparr> dflt := Some DNow \<rparr>"])
    (simp_all add: ofType_def split: option.split)

lemma created_timestamps:
  assumes "distinct (map fst s) \<and>
   list_all (\<lambda>(q, qo). q = [''createdAt''] \<or> (\<not> prefix [''createdAt''] q \<and> \<not> prefix q [''createdAt''])) s \<and>
   map_of s [''createdAt''] = Some ((ofType SDate)\<lparr> dflt := Some DNow \<rparr>)"
    and "save s coll (construct s b t0 oid) t1 = Inr (coll', d)"
  shows "coll' = coll @ [d] \<and> getProp d ''updatedAt'' = Some (JDate t1) \<and>
         getProp d ''createdAt'' = Some (case getProp b ''createdAt'' of None \<Rightarrow> JDate t0 | Some v \<Rightarrow> v)"
  using save_Inr [OF assms(2)] createdAt_construct [OF assms(1), of b t0 oid]
  by (simp add: getProp_preSave)

lemma post_created:
  "postOrganization e st b = (st', r) \<Longrightarrow> status r = 201 \<Longrightarrow>
     \<exists>d. r = success 201 d \<and> organizations st' = organizations st @ [d] \<and>
         getProp d ''updatedAt'' = Some (JDate (later e)) \<and>
         getProp d ''createdAt'' = Some (case getProp b ''createdAt'' of None \<Rightarrow> JDate (now e) | Some v \<Rightarrow> v)"
  "postBrand e st b = (st', r) \<Longrightarrow> status r = 201 \<Longrightarrow>
     \<exists>d. r = success 201 d \<and> brands st' = brands st @ [d] \<and>
         getProp d ''updatedAt'' = Some (JDate (later e)) \<and>
         getProp d ''createdAt'' = Some (case getProp b ''createdAt'' of None \<Rightarrow> JDate (now e) | Some v \<Rightarrow> v)"
  "postBusiness e st b = (st', r) \<Longrightarrow> status r = 201 \<Longrightarrow>
     \<exists>d. r = success 201 d \<and> businesses st' = businesses st @ [d] \<and>
         getProp d ''updatedAt'' = Some (JDate (later e)) \<and>
         getProp d ''createdAt'' = Some (case getProp b ''createdAt'' of None \<Rightarrow> JDate (now e) | Some v \<Rightarrow> v)"
  "postFranchise e st b = (st', r) \<Longrightarrow> status r = 201 \<Longrightarrow>
     \<exists>d. r = success 201 d \<and> franchises st' = franchises st @ [d] \<and>
         getProp d ''updatedAt'' = Some (JDate (later e)) \<and>
         getProp d ''createdAt'' = Some (case getProp b ''createdAt'' of None \<Rightarrow> JDate (now e) | Some v \<Rightarrow> v)"
  by (auto simp: postOrganization_def postBrand_def postBusiness_def postFranchise_def
        status_failure split: sum.splits prod.splits
        dest!: created_timestamps [OF leaf_createdAt(1)] created_timestamps [OF leaf_createdAt(2)]
          created_timestamps [OF leaf_createdAt(3)] created_timestamps [OF leaf_createdAt(4)])


section \<open>Updating documents\<close>

lemma getProp_fold_setProp:
  "k \<notin> fst ` set sets \<Longrightarrow>
   getProp (fold (\<lambda>(k, v) acc. setProp acc k v) sets d) k = getProp d k"
  by (induction sets arbitrary: d) (auto simp: getProp_setProp)

lemma keys_strictProps: "(k, v) \<in> set (strictProps s pre kvs) \<Longrightarrow> k \<in> fst ` set kvs"
  by (induction kvs) (auto split: if_splits)

lemma keys_castUpdate: "fst ` set (castUpdate s b) \<subseteq> set (keys b)"
proof (cases b)
  case (JObj kvs)
  have "fst ` set (castUpdate s b) \<subseteq>
        fst ` set (filter (\<lambda>(k, v). k \<notin> set [''createdAt'', ''updatedAt'']) kvs)"
    unfolding castUpdate_def JObj json.case using keys_strictProps by fastforce
  then show ?thesis using JObj by auto
qed (simp_all add: castUpdate_def)

lemma getProp_applyUpdate:
  "getProp (applyUpdate d sets t) k =
     (if k = ''updatedAt'' then Some (JDate t)
      else getProp (fold (\<lambda>(k, v) acc. setProp acc k v) sets d) k)"
  by (simp add: applyUpdate_def getProp_setProp)

lemma applyUpdate_updatedAt: "getProp (applyUpdate d sets t) ''updatedAt'' = Some (JDate t)"
  by (simp add: getProp_applyUpdate)

lemma applyUpdate_frame:
  assumes "k \<notin> set (keys b)" "k \<noteq> ''updatedAt''"
  shows "getProp (applyUpdate d (castUpdate s b) t) k = getProp d k"
proof -
  have "k \<notin> fst ` set (castUpdate s b)"
    using keys_castUpdate [of s b] assms(1) by blast
  then show ?thesis
    using assms(2) by (simp add: getProp_applyUpdate getProp_fold_setProp)
qed

lemma findById_replaceById:
  "findById coll i \<noteq> None \<Longrightarrow> getProp d ''_id'' = Some (JId i) \<Longrightarrow>
   findById (replaceById i d coll) i = Some d"
  by (induction coll) (auto simp: findById_def)

lemma findById_replaceById_other:
  "j \<noteq> i \<Longrightarrow> getProp d ''_id'' = Some (JId i) \<Longrightarrow>
   findById (replaceById i d coll) j = findById coll j"
  by (induction coll) (auto simp: findById_def)

lemma findByIdAndUpdate_Some:
  assumes "findByIdAndUpdate s coll i b t = Inr (coll', Some d)"
  shows "\<exists>d0. findById coll i = Some d0 \<and> d = applyUpdate d0 (castUpdate s b) t \<and>
              coll' = replaceById i d coll \<and> getProp d ''_id'' = Some (JId i)"
proof (cases "findById coll i")
  case None
  with assms show ?thesis by (simp add: findByIdAndUpdate_def)
next
  case (Some d0)
  with assms have "d = applyUpdate d0 (castUpdate s b) t" "coll' = replaceById i d coll"
    "getProp d ''_id'' = getProp d0 ''_id''"
    by (auto simp: findByIdAndUpdate_def Let_def split: if_splits)
  then show ?thesis using Some findById_Some [OF Some] by simp
qed

lemma put_updated:
  "putOrganization e st i b = (st', r) \<Longrightarrow> status r = 200 \<Longrightarrow>
     \<exists>d0 d. findById (organizations st) i = Some d0 \<and>
            d = applyUpdate d0 (castUpdate organizationSchema b) (now e) \<and>
            getProp d ''_id'' = Some (JId i) \<and>
            r = success 200 d \<and> st' = st\<lparr> organizations := replaceById i d (organizations st) \<rparr>"
  "putBusiness e st i b = (st', r) \<Longrightarrow> status r = 200 \<Longrightarrow>
     \<exists>d0 d. findById (businesses st) i = Some d0 \<and>
            d = applyUpdate d0 (castUpdate businessSchema b) (now e) \<and>
            getProp d ''_id'' = Some (JId i) \<and>
            r = success 200 d \<and> st' = st\<lparr> businesses := replaceById i d (businesses st) \<rparr>"
  "putFranchise e st i b = (st', r) \<Longrightarrow> status r = 200 \<Longrightarrow>
     \<exists>d0 d. findById (franchises st) i = Some d0 \<and>
            d = applyUpdate d0 (castUpdate franchiseSchema b) (now e) \<and>
            getProp d ''_id'' = Some (JId i) \<and>
            r = success 200 d \<and> st' = st\<lparr> franchises := replaceById i d (franchises st) \<rparr>"
  by (auto simp: putOrganization_def putBusiness_def putFranchise_def status_failure
        split: sum.splits prod.splits option.splits dest!: findByIdAndUpdate_Some)

lemma put_frame:
  "putOrganization e st i b = (st', r) \<Longrightarrow> status r = 200 \<Longrightarrow>
     \<exists>d0 d. findById (organizations st) i = Some d0 \<and> r = success 200 d \<and>
        findById (organizations st') i = Some d \<and>
        getProp d ''updatedAt'' = Some (JDate (now e)) \<and>
        (\<forall>k. k \<notin> set (keys b) \<and> k \<noteq> ''updatedAt'' \<longrightarrow> getProp d k = getProp d0 k) \<and>
        (\<forall>j. j \<noteq> i \<longrightarrow> findById (organizations st') j = findById (organizations st) j)"
  "putBusiness e st i b = (st', r) \<Longrightarrow> status r = 200 \<Longrightarrow>
     \<exists>d0 d. findById (businesses st) i = Some d0 \<and> r = success 200 d \<and>
        findById (businesses st') i = Some d \<and>
        getProp d ''updatedAt'' = Some (JDate (now e)) \<and>
        (\<forall>k. k \<notin> set (keys b) \<and> k \<noteq> ''updatedAt'' \<longrightarrow> getProp d k = getProp d0 k) \<and>
        (\<forall>j. j \<noteq> i \<longrightarrow> findById (businesses st') j = findById (businesses st) j)"
  "putFranchise e st i b = (st', r) \<Longrightarrow> status r = 200 \<Longrightarrow>
     \<exists>d0 d. findById (franchises st) i = Some d0 \<and> r = success 200 d \<and>
        findById (franchises st') i = Some d \<and>
        getProp d ''updatedAt'' = Some (JDate (now e)) \<and>
        (\<forall>k. k \<notin> set (keys b) \<and> k \<noteq> ''updatedAt'' \<longrightarrow> getProp d k = getProp d0 k) \<and>
        (\<forall>j. j \<noteq> i \<longrightarrow> findById (franchises st') j = findById (franchises st) j)"
  by (auto dest!: put_updated
        simp: findById_replaceById findById_replaceById_other applyUpdate_frame
          applyUpdate_updatedAt)








subsection \<open>Requests that succeed\<close>

lemma nova_created: "status (snd (postOrganization env0 acmeStore newOrg)) = 201"
  by code_simp

lemma orphan_created: "status (snd (postBrand env0 acmeStore orphanBrand)) = 201"
  by code_simp

lemma creates_succeed:
  "status (snd (postBusiness env0 acmeStore newBusiness)) = 201"
  "status (snd (postFranchise env0 acmeStore newFranchise)) = 201"
  by code_simp+

lemma acme_renamed: "status (snd (putOrganization env0 acmeStore ''o1'' renameBody)) = 200"
  by code_simp

lemma updates_succeed:
  "status (snd (putBusiness env0 acmeStore ''z1'' renameBody)) = 200"
  "status (snd (putFranchise env0 acmeStore ''f1'' renameBody)) = 200"
  by code_simp+



lemma parents_missing:
  "findById (organizations acmeStore) ''ffff'' = None"
  "findById (businesses acmeStore) ''eeee'' = None"
  by code_simp+

section \<open>Timestamps\<close>

text \<open>
  C6 (as the code has it). A created document is answered with \<open>updatedAt\<close> set to
  the clock of the \<open>pre('save')\<close> hook and with \<open>createdAt\<close> as the body gives it
  or, when the body gives none, set to the clock at construction. A successful update
  stores and answers the document with \<open>updatedAt\<close> set to the clock of the update,
  which is not before the previous value when the clock has not gone back.
\<close>

theorem timestamps_set:
  "(postOrganization e st b = (st', r) \<and> status r = 201 \<longrightarrow>
     (\<exists>d. r = success 201 d \<and> organizations st' = organizations st @ [d] \<and>
         getProp d ''updatedAt'' = Some (JDate (later e)) \<and>
         getProp d ''createdAt'' =
           Some (case getProp b ''createdAt'' of None \<Rightarrow> JDate (now e) | Some v \<Rightarrow> v))) \<and>
   (postBrand e st b = (st', r) \<and> status r = 201 \<longrightarrow>
     (\<exists>d. r = success 201 d \<and> brands st' = brands st @ [d] \<and>
         getProp d ''updatedAt'' = Some (JDate (later e)) \<and>
         getProp d ''createdAt'' =
           Some (case getProp b ''createdAt'' of None \<Rightarrow> JDate (now e) | Some v \<Rightarrow> v))) \<and>
   (postBusiness e st b = (st', r) \<and> status r = 201 \<longrightarrow>
     (\<exists>d. r = success 201 d \<and> businesses st' = businesses st @ [d] \<and>
         getProp d ''updatedAt'' = Some (JDate (later e)) \<and>
         getProp d ''createdAt'' =
           Some (case getProp b ''createdAt'' of None \<Rightarrow> JDate (now e) | Some v \<Rightarrow> v))) \<and>
   (postFranchise e st b = (st', r) \<and> status r = 201 \<longrightarrow>
     (\<exists>d. r = success 201 d \<and> franchises st' = franchises st @ [d] \<and>
         getProp d ''updatedAt'' = Some (JDate (later e)) \<and>
         getProp d ''createdAt'' =
           Some (case getProp b ''createdAt'' of None \<Rightarrow> JDate (now e) | Some v \<Rightarrow> v))) \<and>
   (putOrganization e st i b = (st', r) \<and> status r = 200 \<longrightarrow>
     (\<exists>d0 d. findById (organizations st) i = Some d0 \<and> r = success 200 d \<and>
        findById (organizations st') i = Some d \<and>
        getProp d ''updatedAt'' = Some (JDate (now e)) \<and>
        (\<forall>t. getProp d0 ''updatedAt'' = Some (JDate t) \<and> t \<le> now e \<longrightarrow>
           bsonKey (getProp d0 ''updatedAt'') \<le> bsonKey (getProp d ''updatedAt'')))) \<and>
   (putBusiness e st i b = (st', r) \<and> status r = 200 \<longrightarrow>
     (\<exists>d0 d. findById (businesses st) i = Some d0 \<and> r = success 200 d \<and>
        findById (businesses st') i = Some d \<and>
        getProp d ''updatedAt'' = Some (JDate (now e)) \<and>
        (\<forall>t. getProp d0 ''updatedAt'' = Some (JDate t) \<and> t \<le> now e \<longrightarrow>
           bsonKey (getProp d0 ''updatedAt'') \<le> bsonKey (getProp d ''updatedAt'')))) \<and>
   (putFranchise e st i b = (st', r) \<and> status r = 200 \<longrightarrow>
     (\<exists>d0 d. findById (franchises st) i = Some d0 \<and> r = success 200 d \<and>
        findById (franchises st') i = Some d \<and>
        getProp d ''updatedAt'' = Some (JDate (now e)) \<and>
        (\<forall>t. getProp d0 ''updatedAt'' = Some (JDate t) \<and> t \<le> now e \<longrightarrow>
           bsonKey (getProp d0 ''updatedAt'') \<le> bsonKey (getProp d ''updatedAt''))))"
proof (intro conjI impI; elim conjE)
  assume "postOrganization e st b = (st', r)" "status r = 201"
  then show "\<exists>d. r = success 201 d \<and> organizations st' = organizations st @ [d] \<and>
         getProp d ''updatedAt'' = Some (JDate (later e)) \<and>
         getProp d ''createdAt'' =
           Some (case getProp b ''createdAt'' of None \<Rightarrow> JDate (now e) | Some v \<Rightarrow> v)"
    by (rule post_created)
next
  assume "postBrand e st b = (st', r)" "status r = 201"
  then show "\<exists>d. r = success 201 d \<and> brands st' = brands st @ [d] \<and>
         getProp d ''updatedAt'' = Some (JDate (later e)) \<and>
         getProp d ''createdAt'' =
           Some (case getProp b ''createdAt'' of None \<Rightarrow> JDate (now e) | Some v \<Rightarrow> v)"
    by (rule post_created)
next
  assume "postBusiness e st b = (st', r)" "status r = 201"
  then show "\<exists>d. r = success 201 d \<and> businesses st' = businesses st @ [d] \<and>
         getProp d ''updatedAt'' = Some (JDate (later e)) \<and>
         getProp d ''createdAt'' =
           Some (case getProp b ''createdAt'' of None \<Rightarrow> JDate (now e) | Some v \<Rightarrow> v)"
    by (rule post_created)
next
  assume "postFranchise e st b = (st', r)" "status r = 201"
  then show "\<exists>d. r = success 201 d \<and> franchises st' = franchises st @ [d] \<and>
         getProp d ''updatedAt'' = Some (JDate (later e)) \<and>
         getProp d ''createdAt'' =
           Some (case getProp b ''createdAt'' of None \<Rightarrow> JDate (now e) | Some v \<Rightarrow> v)"
    by (rule post_created)
next
  assume "putOrganization e st i b = (st', r)" "status r = 200"
  from put_frame(1) [OF this] show "\<exists>d0 d. findById (organizations st) i = Some d0 \<and> r = success 200 d \<and>
        findById (organizations st') i = Some d \<and>
        getProp d ''updatedAt'' = Some (JDate (now e)) \<and>
        (\<forall>t. getProp d0 ''updatedAt'' = Some (JDate t) \<and> t \<le> now e \<longrightarrow>
           bsonKey (getProp d0 ''updatedAt'') \<le> bsonKey (getProp d ''updatedAt''))"
    by (fastforce simp: bsonKey_date)
next
  assume "putBusiness e st i b = (st', r)" "status r = 200"
  from put_frame(2) [OF this] show "\<exists>d0 d. findById (businesses st) i = Some d0 \<and> r = success 200 d \<and>
        findById (businesses st') i = Some d \<and>
        getProp d ''updatedAt'' = Some (JDate (now e)) \<and>
        (\<forall>t. getProp d0 ''updatedAt'' = Some (JDate t) \<and> t \<le> now e \<longrightarrow>
           bsonKey (getProp d0 ''updatedAt'') \<le> bsonKey (getProp d ''updatedAt''))"
    by (fastforce simp: bsonKey_date)
next
  assume "putFranchise e st i b = (st', r)" "status r = 200"
  from put_frame(3) [OF this] show "\<exists>d0 d. findById (franchises st) i = Some d0 \<and> r = success 200 d \<and>
        findById (franchises st') i = Some d \<and>
        getProp d ''updatedAt'' = Some (JDate (now e)) \<and>
        (\<forall>t. getProp d0 ''updatedAt'' = Some (JDate t) \<and> t \<le> now e \<longrightarrow>
           bsonKey (getProp d0 ''updatedAt'') \<le> bsonKey (getProp d ''updatedAt''))"
    by (fastforce simp: bsonKey_date)
qed

theorem timestamps_set_witness:
  "status (snd (postOrganization env0 acmeStore newOrg)) = 201 \<and>
   (\<exists>d. snd (postOrganization env0 acmeStore newOrg) = success 201 d \<and>
        getProp d ''updatedAt'' = Some (JDate 1001) \<and>
        getProp d ''createdAt'' = Some (JDate 1000)) \<and>
   status (snd (postBrand env0 acmeStore orphanBrand)) = 201 \<and>
   (\<exists>d. snd (postBrand env0 acmeStore orphanBrand) = success 201 d \<and>
        getProp d ''updatedAt'' = Some (JDate 1001) \<and>
        getProp d ''createdAt'' = Some (JDate 1000)) \<and>
   status (snd (postBusiness env0 acmeStore newBusiness)) = 201 \<and>
   (\<exists>d. snd (postBusiness env0 acmeStore newBusiness) = success 201 d \<and>
        getProp d ''updatedAt'' = Some (JDate 1001) \<and>
        getProp d ''createdAt'' = Some (JDate 1000)) \<and>
   status (snd (postFranchise env0 acmeStore newFranchise)) = 201 \<and>
   (\<exists>d. snd (postFranchise env0 acmeStore newFranchise) = success 201 d \<and>
        getProp d ''updatedAt'' = Some (JDate 1001) \<and>
        getProp d ''createdAt'' = Some (JDate 1000)) \<and>
   status (snd (putOrganization env0 acmeStore ''o1'' renameBody)) = 200 \<and>
   (\<exists>d. snd (putOrganization env0 acmeStore ''o1'' renameBody) = success 200 d \<and>
        getProp acme ''updatedAt'' = Some (JDate 100) \<and>
        getProp d ''updatedAt'' = Some (JDate 1000)) \<and>
   status (snd (putBusiness env0 acmeStore ''z1'' renameBody)) = 200 \<and>
   (\<exists>d. snd (putBusiness env0 acmeStore ''z1'' renameBody) = success 200 d \<and>
        getProp d ''updatedAt'' = Some (JDate 1000)) \<and>
   status (snd (putFranchise env0 acmeStore ''f1'' renameBody)) = 200 \<and>
   (\<exists>d. snd (putFranchise env0 acmeStore ''f1'' renameBody) = success 200 d \<and>
        getProp d ''updatedAt'' = Some (JDate 1000))"
proof -
  have nb: "getProp newOrg ''createdAt'' = None" "getProp orphanBrand ''createdAt'' = None"
    "getProp newBusiness ''createdAt'' = None" "getProp newFranchise ''createdAt'' = None"
    by (simp_all add: newOrg_def orphanBrand_def newBusiness_def newFranchise_def)
  from timestamps_set [of env0 acmeStore newOrg
      "fst (postOrganization env0 acmeStore newOrg)" "snd (postOrganization env0 acmeStore newOrg)",
      THEN conjunct1, rule_format, OF conjI [OF surjective_pairing nova_created]]
  have 1: "\<exists>d. snd (postOrganization env0 acmeStore newOrg) = success 201 d \<and>
        getProp d ''updatedAt'' = Some (JDate 1001) \<and>
        getProp d ''createdAt'' = Some (JDate 1000)"
    by (auto simp: nb env0_def)
  from timestamps_set [of env0 acmeStore orphanBrand
      "fst (postBrand env0 acmeStore orphanBrand)" "snd (postBrand env0 acmeStore orphanBrand)",
      THEN conjunct2, THEN conjunct1, rule_format, OF conjI [OF surjective_pairing orphan_created]]
  have 2: "\<exists>d. snd (postBrand env0 acmeStore orphanBrand) = success 201 d \<and>
        getProp d ''updatedAt'' = Some (JDate 1001) \<and>
        getProp d ''createdAt'' = Some (JDate 1000)"
    by (auto simp: nb env0_def)
  from timestamps_set [of env0 acmeStore newBusiness
      "fst (postBusiness env0 acmeStore newBusiness)" "snd (postBusiness env0 acmeStore newBusiness)",
      THEN conjunct2, THEN conjunct2, THEN conjunct1, rule_format,
      OF conjI [OF surjective_pairing creates_succeed(1)]]
  have 3: "\<exists>d. snd (postBusiness env0 acmeStore newBusiness) = success 201 d \<and>
        getProp d ''updatedAt'' = Some (JDate 1001) \<and>
        getProp d ''createdAt'' = Some (JDate 1000)"
    by (auto simp: nb env0_def)
  from timestamps_set [of env0 acmeStore newFranchise
      "fst (postFranchise env0 acmeStore newFranchise)" "snd (postFranchise env0 acmeStore newFranchise)",
      THEN conjunct2, THEN conjunct2, THEN conjunct2, THEN conjunct1, rule_format,
      OF conjI [OF surjective_pairing creates_succeed(2)]]
  have 4: "\<exists>d. snd (postFranchise env0 acmeStore newFranchise) = success 201 d \<and>
        getProp d ''updatedAt'' = Some (JDate 1001) \<and>
        getProp d ''createdAt'' = Some (JDate 1000)"
    by (auto simp: nb env0_def)
  from timestamps_set [of env0 acmeStore renameBody
      "fst (putOrganization env0 acmeStore ''o1'' renameBody)"
      "snd (putOrganization env0 acmeStore ''o1'' renameBody)" "''o1''",
      THEN conjunct2, THEN conjunct2, THEN conjunct2, THEN conjunct2, THEN conjunct1,
      rule_format, OF conjI [OF surjective_pairing acme_renamed]]
  have 5: "\<exists>d. snd (putOrganization env0 acmeStore ''o1'' renameBody) = success 200 d \<and>
        getProp acme ''updatedAt'' = Some (JDate 100) \<and>
        getProp d ''updatedAt'' = Some (JDate 1000)"
    by (auto simp: env0_def acme_def)
  from timestamps_set [of env0 acmeStore renameBody
      "fst (putBusiness env0 acmeStore ''z1'' renameBody)"
      "snd (putBusiness env0 acmeStore ''z1'' renameBody)" "''z1''",
      THEN conjunct2, THEN conjunct2, THEN conjunct2, THEN conjunct2, THEN conjunct2,
      THEN conjunct1, rule_format, OF conjI [OF surjective_pairing updates_succeed(1)]]
  have 6: "\<exists>d. snd (putBusiness env0 acmeStore ''z1'' renameBody) = success 200 d \<and>
        getProp d ''updatedAt'' = Some (JDate 1000)"
    by (auto simp: env0_def)
  from timestamps_set [of env0 acmeStore renameBody
      "fst (putFranchise env0 acmeStore ''f1'' renameBody)"
      "snd (putFranchise env0 acmeStore ''f1'' renameBody)" "''f1''",
      THEN conjunct2, THEN conjunct2, THEN conjunct2, THEN conjunct2, THEN conjunct2,
      THEN conjunct2, rule_format, OF conjI [OF surjective_pairing updates_succeed(2)]]
  have 7: "\<exists>d. snd (putFranchise env0 acmeStore ''f1'' renameBody) = success 200 d \<and>
        getProp d ''updatedAt'' = Some (JDate 1000)"
    by (auto simp: env0_def)
  show ?thesis
    by (intro conjI nova_created orphan_created creates_succeed acme_renamed updates_succeed
          1 2 3 4 5 6 7)
qed


text \<open>
  C6 as the specification states it asks for \<open>createdAt = updatedAt\<close> on creation. The
  two fields come from two readings of the clock, here one millisecond apart; and when
  the body brings a \<open>createdAt\<close>, they differ even on a clock that stands still.
\<close>

theorem created_equals_updated_counterexample:
  "status (snd (postOrganization env0 acmeStore newOrg)) = 201 \<and>
   getPath (body (snd (postOrganization env0 acmeStore newOrg))) [''data'', ''createdAt'']
     = Some (JDate 1000) \<and>
   getPath (body (snd (postOrganization env0 acmeStore newOrg))) [''data'', ''updatedAt'']
     = Some (JDate 1001) \<and>
   status (snd (postOrganization env1 acmeStore backdatedOrg)) = 201 \<and>
   getPath (body (snd (postOrganization env1 acmeStore backdatedOrg))) [''data'', ''createdAt'']
     = Some (JDate 5) \<and>
   getPath (body (snd (postOrganization env1 acmeStore backdatedOrg))) [''data'', ''updatedAt'']
     = Some (JDate 2000)"
  by code_simp


section \<open>Partial updates\<close>





section \<open>Parent references\<close>

lemma leaf_parent:
  "distinct (map fst brandSchema) \<and>
   list_all (\<lambda>(q, qo). q = [''organizationId''] \<or>
       (\<not> prefix [''organizationId''] q \<and> \<not> prefix q [''organizationId''])) brandSchema \<and>
   map_of brandSchema [''organizationId''] = Some ((ofType SObjectId)\<lparr> required := True \<rparr>)"
  "distinct (map fst businessSchema) \<and>
   list_all (\<lambda>(q, qo). q = [''organizationId''] \<or>
       (\<not> prefix [''organizationId''] q \<and> \<not> prefix q [''organizationId''])) businessSchema \<and>
   map_of businessSchema [''organizationId''] = Some ((ofType SObjectId)\<lparr> required := True \<rparr>)"
  "distinct (map fst franchiseSchema) \<and>
   list_all (\<lambda>(q, qo). q = [''businessId''] \<or>
       (\<not> prefix [''businessId''] q \<and> \<not> prefix q [''businessId''])) franchiseSchema \<and>
   map_of franchiseSchema [''businessId''] = Some ((ofType SObjectId)\<lparr> required := True \<rparr>)"
  by code_simp+

lemma parent_stored:
  assumes "distinct (map fst s) \<and>
   list_all (\<lambda>(q, qo). q = [k] \<or> (\<not> prefix [k] q \<and> \<not> prefix q [k])) s \<and>
   map_of s [k] = Some ((ofType SObjectId)\<lparr> required := True \<rparr>)"
    and "save s coll (construct s b t0 oid) t1 = Inr (coll', d)"
    and "k \<noteq> ''updatedAt''"
  shows "coll' = coll @ [d] \<and> getProp d k = getProp b k"
proof -
  have c: "getProp (construct s b t0 oid) k = getProp b k"
    using assms(1)
    by (subst construct_leaf [where po = "(ofType SObjectId)\<lparr> required := True \<rparr>"])
      (simp_all add: ofType_def split: option.split)
  show ?thesis
    using save_Inr [OF assms(2)] c assms(3) by (simp add: getProp_preSave)
qed

lemma post_parent:
  "postBrand e st b = (st', r) \<Longrightarrow> status r = 201 \<Longrightarrow>
     \<exists>d. r = success 201 d \<and> brands st' = brands st @ [d] \<and>
         getProp d ''organizationId'' = getProp b ''organizationId''"
  "postBusiness e st b = (st', r) \<Longrightarrow> status r = 201 \<Longrightarrow>
     \<exists>d. r = success 201 d \<and> businesses st' = businesses st @ [d] \<and>
         getProp d ''organizationId'' = getProp b ''organizationId''"
  "postFranchise e st b = (st', r) \<Longrightarrow> status r = 201 \<Longrightarrow>
     \<exists>d. r = success 201 d \<and> franchises st' = franchises st @ [d] \<and>
         getProp d ''businessId'' = getProp b ''businessId''"
  by (auto simp: postBrand_def postBusiness_def postFranchise_def status_failure
        split: sum.splits prod.splits
        dest!: parent_stored [OF leaf_parent(1)] parent_stored [OF leaf_parent(2)]
          parent_stored [OF leaf_parent(3)])

lemma post_no_parent:
  "getProp b ''organizationId'' = None \<Longrightarrow>
     postBrand e st b = (st, failure 500 ''Failed to create brand'')"
  "getProp b ''organizationId'' = None \<Longrightarrow>
     postBusiness e st b = (st, failure 500 ''Failed to create business'')"
  "getProp b ''businessId'' = None \<Longrightarrow>
     postFranchise e st b = (st, failure 500 ''Failed to create franchise'')"
proof -
  have m: "([''organizationId''], (ofType SObjectId)\<lparr> required := True \<rparr>) \<in> set brandSchema"
    "([''organizationId''], (ofType SObjectId)\<lparr> required := True \<rparr>) \<in> set businessSchema"
    "([''businessId''], (ofType SObjectId)\<lparr> required := True \<rparr>) \<in> set franchiseSchema"
    by (simp_all add: brandSchema_def businessSchema_def franchiseSchema_def)
  show "getProp b ''organizationId'' = None \<Longrightarrow>
     postBrand e st b = (st, failure 500 ''Failed to create brand'')"
    by (rule post_rejects(2) [OF m(1)]) (simp_all split: option.split)
  show "getProp b ''organizationId'' = None \<Longrightarrow>
     postBusiness e st b = (st, failure 500 ''Failed to create business'')"
    by (rule post_rejects(3) [OF m(2)]) (simp_all split: option.split)
  show "getProp b ''businessId'' = None \<Longrightarrow>
     postFranchise e st b = (st, failure 500 ''Failed to create franchise'')"
    by (rule post_rejects(4) [OF m(3)]) (simp_all split: option.split)
qed

lemma post_ignores_parents:
  "postBrand e (st\<lparr> organizations := os \<rparr>) b =
     ((fst (postBrand e st b))\<lparr> organizations := os \<rparr>, snd (postBrand e st b))"
  "postBusiness e (st\<lparr> organizations := os, brands := bs \<rparr>) b =
     ((fst (postBusiness e st b))\<lparr> organizations := os, brands := bs \<rparr>, snd (postBusiness e st b))"
  "postFranchise e (st\<lparr> businesses := zs \<rparr>) b =
     ((fst (postFranchise e st b))\<lparr> businesses := zs \<rparr>, snd (postFranchise e st b))"
  by (simp_all add: postBrand_def postBusiness_def postFranchise_def
        split: sum.split prod.split)

text \<open>
  C5 (as the code has it). A create of a Brand, a Business or a Franchise without its
  parent reference (\<open>organizationId\<close>, \<open>organizationId\<close>, \<open>businessId\<close>) fails
  and stores nothing. A successful create stores the reference as the body gives it.
  No create reads the parent collection: its outcome is the same whatever organizations
  (and brands, and businesses) the store holds.
\<close>

theorem create_parent_unchecked:
  "(getProp b ''organizationId'' = None \<longrightarrow>
      postBrand e st b = (st, failure 500 ''Failed to create brand'')) \<and>
   (postBrand e st b = (st', r) \<and> status r = 201 \<longrightarrow>
      (\<exists>d. r = success 201 d \<and> brands st' = brands st @ [d] \<and>
          getProp d ''organizationId'' = getProp b ''organizationId'')) \<and>
   postBrand e (st\<lparr> organizations := os \<rparr>) b =
     ((fst (postBrand e st b))\<lparr> organizations := os \<rparr>, snd (postBrand e st b)) \<and>
   (getProp b ''organizationId'' = None \<longrightarrow>
      postBusiness e st b = (st, failure 500 ''Failed to create business'')) \<and>
   (postBusiness e st b = (st', r) \<and> status r = 201 \<longrightarrow>
      (\<exists>d. r = success 201 d \<and> businesses st' = businesses st @ [d] \<and>
          getProp d ''organizationId'' = getProp b ''organizationId'')) \<and>
   postBusiness e (st\<lparr> organizations := os, brands := bs \<rparr>) b =
     ((fst (postBusiness e st b))\<lparr> organizations := os, brands := bs \<rparr>,
      snd (postBusiness e st b)) \<and>
   (getProp b ''businessId'' = None \<longrightarrow>
      postFranchise e st b = (st, failure 500 ''Failed to create franchise'')) \<and>
   (postFranchise e st b = (st', r) \<and> status r = 201 \<longrightarrow>
      (\<exists>d. r = success 201 d \<and> franchises st' = franchises st @ [d] \<and>
          getProp d ''businessId'' = getProp b ''businessId'')) \<and>
   postFranchise e (st\<lparr> businesses := zs \<rparr>) b =
     ((fst (postFranchise e st b))\<lparr> businesses := zs \<rparr>, snd (postFranchise e st b))"
  by (intro conjI impI post_ignores_parents; (elim conjE)?)
    (erule post_no_parent post_parent, assumption?)+

theorem create_parent_unchecked_witness:
  "findById (organizations acmeStore) ''ffff'' = None \<and>
   getProp orphanBrand ''organizationId'' = Some (JId ''ffff'') \<and>
   status (snd (postBrand env0 acmeStore orphanBrand)) = 201 \<and>
   (\<exists>d. snd (postBrand env0 acmeStore orphanBrand) = success 201 d \<and>
        brands (fst (postBrand env0 acmeStore orphanBrand)) = brands acmeStore @ [d] \<and>
        getProp d ''organizationId'' = Some (JId ''ffff'')) \<and>
   getProp newBusiness ''organizationId'' = Some (JId ''ffff'') \<and>
   status (snd (postBusiness env0 acmeStore newBusiness)) = 201 \<and>
   (\<exists>d. snd (postBusiness env0 acmeStore newBusiness) = success 201 d \<and>
        businesses (fst (postBusiness env0 acmeStore newBusiness)) = businesses acmeStore @ [d] \<and>
        getProp d ''organizationId'' = Some (JId ''ffff'')) \<and>
   findById (businesses acmeStore) ''eeee'' = None \<and>
   getProp newFranchise ''businessId'' = Some (JId ''eeee'') \<and>
   status (snd (postFranchise env0 acmeStore newFranchise)) = 201 \<and>
   (\<exists>d. snd (postFranchise env0 acmeStore newFranchise) = success 201 d \<and>
        franchises (fst (postFranchise env0 acmeStore newFranchise)) = franchises acmeStore @ [d] \<and>
        getProp d ''businessId'' = Some (JId ''eeee'')) \<and>
   getProp renameBody ''organizationId'' = None \<and>
   postBrand env0 acmeStore renameBody = (acmeStore, failure 500 ''Failed to create brand'') \<and>
   postBusiness env0 acmeStore renameBody = (acmeStore, failure 500 ''Failed to create business'') \<and>
   getProp renameBody ''businessId'' = None \<and>
   postFranchise env0 acmeStore renameBody = (acmeStore, failure 500 ''Failed to create franchise'')"
proof -
  have p: "getProp orphanBrand ''organizationId'' = Some (JId ''ffff'')"
    "getProp newBusiness ''organizationId'' = Some (JId ''ffff'')"
    "getProp newFranchise ''businessId'' = Some (JId ''eeee'')"
    by (simp_all add: orphanBrand_def newBusiness_def newFranchise_def)
  have n: "getProp renameBody ''organizationId'' = None" "getProp renameBody ''businessId'' = None"
    by (simp_all add: renameBody_def)
  from create_parent_unchecked [of orphanBrand env0 acmeStore
      "fst (postBrand env0 acmeStore orphanBrand)" "snd (postBrand env0 acmeStore orphanBrand)",
      THEN conjunct2, THEN conjunct1, rule_format, OF conjI [OF surjective_pairing orphan_created]]
  have 1: "\<exists>d. snd (postBrand env0 acmeStore orphanBrand) = success 201 d \<and>
        brands (fst (postBrand env0 acmeStore orphanBrand)) = brands acmeStore @ [d] \<and>
        getProp d ''organizationId'' = Some (JId ''ffff'')"
    by (simp add: p)
  from create_parent_unchecked [of newBusiness env0 acmeStore
      "fst (postBusiness env0 acmeStore newBusiness)" "snd (postBusiness env0 acmeStore newBusiness)",
      THEN conjunct2, THEN conjunct2, THEN conjunct2, THEN conjunct2, THEN conjunct1,
      rule_format, OF conjI [OF surjective_pairing creates_succeed(1)]]
  have 2: "\<exists>d. snd (postBusiness env0 acmeStore newBusiness) = success 201 d \<and>
        businesses (fst (postBusiness env0 acmeStore newBusiness)) = businesses acmeStore @ [d] \<and>
        getProp d ''organizationId'' = Some (JId ''ffff'')"
    by (simp add: p)
  from create_parent_unchecked [of newFranchise env0 acmeStore
      "fst (postFranchise env0 acmeStore newFranchise)" "snd (postFranchise env0 acmeStore newFranchise)",
      THEN conjunct2, THEN conjunct2, THEN conjunct2, THEN conjunct2, THEN conjunct2,
      THEN conjunct2, THEN conjunct2, THEN conjunct1,
      rule_format, OF conjI [OF surjective_pairing creates_succeed(2)]]
  have 3: "\<exists>d. snd (postFranchise env0 acmeStore newFranchise) = success 201 d \<and>
        franchises (fst (postFranchise env0 acmeStore newFranchise)) = franchises acmeStore @ [d] \<and>
        getProp d ''businessId'' = Some (JId ''eeee'')"
    by (simp add: p)
  note T = create_parent_unchecked [of renameBody env0 acmeStore]
  note 4 = T [THEN conjunct1, rule_format, OF n(1)]
  note 5 = T [THEN conjunct2, THEN conjunct2, THEN conjunct2, THEN conjunct1, rule_format, OF n(1)]
  note 6 = T [THEN conjunct2, THEN conjunct2, THEN conjunct2, THEN conjunct2, THEN conjunct2,
      THEN conjunct2, THEN conjunct1, rule_format, OF n(2)]
  show ?thesis
    by (intro conjI parents_missing p orphan_created creates_succeed n 1 2 3 4 5 6)
qed

text \<open>
  C5 as the specification states it fails: no organization has the identifier the brand
  refers to, and the brand is created.
\<close>

theorem orphan_brand_counterexample:
  "findById (organizations acmeStore) ''ffff'' = None \<and>
   getProp orphanBrand ''organizationId'' = Some (JId ''ffff'') \<and>
   status (snd (postBrand env0 acmeStore orphanBrand)) = 201 \<and>
   length (brands (fst (postBrand env0 acmeStore orphanBrand))) = length (brands acmeStore) + 1"
  by code_simp

end
